theory Spec2Isabelle
  imports Main "HOL-Library.AList"
begin

section \<open>Common notions\<close>

text \<open>
  Document identifiers are modelled as natural numbers. A request parameter or body field
  that should hold an identifier may be a string that is no identifier at all; the
  database driver then raises a cast error, which each controller catches.
  Instants are integers counting milliseconds since the epoch, as the platform's
  \<^verbatim>\<open>Date\<close> does. A \<^verbatim>\<open>Date\<close> that the platform computes may be invalid; where
  that can happen the date is an optional instant, and \<open>None\<close> is the invalid date.
\<close>

type_synonym oid = nat
type_synonym instant = int

datatype idparam = Malformed | WellFormed oid

text \<open>
  Every controller answers with a status code and a JSON envelope
  \<^verbatim>\<open>{ success, message }\<close>. Messages are the literal texts of the source; the two
  template strings that interpolate a number carry that number, and an envelope without a
  message has \<open>NoMessage\<close>.
\<close>

datatype message =
    NoMessage
  | Text string
  | InsufficientStockMsg int
  | CategoryHasProductsMsg nat

record response =
  code :: nat
  success :: bool
  message :: message

definition reply :: "nat \<Rightarrow> bool \<Rightarrow> string \<Rightarrow> response" where
  "reply c ok m = \<lparr>code = c, success = ok, message = Text m\<rparr>"

subsection \<open>Values of a request body\<close>

text \<open>
  The server parses a request body with \<^verbatim>\<open>express.json()\<close>; a field that a controller
  reads from it without a check of its type is any JSON value. A number is a whole number
  here. An object lists its members in the order of the text, and a later member replaces
  an earlier one with the same key.
\<close>

datatype json = JNull | JBool bool | JNum int | JStr string | JArr "json list"
  | JObj "(string \<times> json) list"

text \<open>A value in a condition: \<^verbatim>\<open>v ? a : b\<close>, \<^verbatim>\<open>v || b\<close>, \<^verbatim>\<open>!v\<close>.\<close>

fun truthyJ :: "json \<Rightarrow> bool" where
  "truthyJ JNull = False"
| "truthyJ (JBool b) = b"
| "truthyJ (JNum n) = (n \<noteq> 0)"
| "truthyJ (JStr t) = (t \<noteq> [])"
| "truthyJ (JArr xs) = True"
| "truthyJ (JObj fs) = True"

text \<open>The decimal text of a number, \<^verbatim>\<open>n.toString()\<close>.\<close>

fun digitsOf :: "nat \<Rightarrow> string" where
  "digitsOf n = (if n < 10 then [char_of (48 + n)]
                 else digitsOf (n div 10) @ [char_of (48 + n mod 10)])"

declare digitsOf.simps [simp del]

definition showInt :: "int \<Rightarrow> string" where
  "showInt n = (if n < 0 then CHR ''-'' # digitsOf (nat (- n)) else digitsOf (nat n))"

text \<open>
  The cast of a value to a schema path of type \<^verbatim>\<open>String\<close> (mongoose,
  \<^verbatim>\<open>cast/string.js\<close>): null stays null; an object with a non-empty text under
  \<^verbatim>\<open>_id\<close> is cast to that text; a text, a number and a boolean are cast to their text;
  an array and any other object are refused with a cast error.
\<close>

datatype 'a cast = CastError | CastNull | Cast 'a

fun castString :: "json \<Rightarrow> string cast" where
  "castString JNull = CastNull"
| "castString (JStr t) = Cast t"
| "castString (JNum n) = Cast (showInt n)"
| "castString (JBool b) = Cast (if b then ''true'' else ''false'')"
| "castString (JArr xs) = CastError"
| "castString (JObj fs) =
     (case map_of (rev fs) ''_id'' of
        Some (JStr t) \<Rightarrow> if t = [] then CastError else Cast t
      | _ \<Rightarrow> CastError)"

subsection \<open>Strings\<close>

text \<open>
  \<^verbatim>\<open>toUpperCase\<close>, \<^verbatim>\<open>toLowerCase\<close> and \<^verbatim>\<open>trim\<close> on ASCII text (characters
  outside ASCII are left as they are).
\<close>

definition upper_char :: "char \<Rightarrow> char" where
  "upper_char c =
     (let n = (of_char c :: nat) in if 97 \<le> n \<and> n \<le> 122 then char_of (n - 32) else c)"

definition lower_char :: "char \<Rightarrow> char" where
  "lower_char c =
     (let n = (of_char c :: nat) in if 65 \<le> n \<and> n \<le> 90 then char_of (n + 32) else c)"

definition toUpperCase :: "string \<Rightarrow> string" where
  "toUpperCase s = map upper_char s"

definition toLowerCase :: "string \<Rightarrow> string" where
  "toLowerCase s = map lower_char s"

definition is_space :: "char \<Rightarrow> bool" where
  "is_space c = ((of_char c :: nat) \<in> {9, 10, 11, 12, 13, 32})"

definition trim :: "string \<Rightarrow> string" where
  "trim s = rev (dropWhile is_space (rev (dropWhile is_space s)))"

subsection \<open>Calendar arithmetic of the platform\<close>

text \<open>
  The controllers and hooks compute with \<^verbatim>\<open>Date\<close>: \<^verbatim>\<open>getDate\<close>, \<^verbatim>\<open>setDate\<close> and
  \<^verbatim>\<open>setHours(0, 0, 0, 0)\<close>. These are functions of the language's standard library, modelled
  here after the language standard (ECMA-262, section "Date objects").
\<close>

definition msPerDay :: int where
  "msPerDay = 86400000"

definition Day :: "int \<Rightarrow> int" where
  "Day t = t div msPerDay"

definition TimeWithinDay :: "int \<Rightarrow> int" where
  "TimeWithinDay t = t mod msPerDay"

definition DayFromYear :: "int \<Rightarrow> int" where
  "DayFromYear y =
     365 * (y - 1970) + (y - 1969) div 4 - (y - 1901) div 100 + (y - 1601) div 400"

definition DaysInYear :: "int \<Rightarrow> int" where
  "DaysInYear y =
     (if y mod 4 \<noteq> 0 then 365 else if y mod 100 \<noteq> 0 then 366
      else if y mod 400 \<noteq> 0 then 365 else 366)"

text \<open>The year of a day number: an estimate from the mean year length, corrected by one.\<close>

definition YearFromDay :: "int \<Rightarrow> int" where
  "YearFromDay d =
     (let y = 1970 + (400 * d) div 146097
      in if d < DayFromYear y then y - 1
         else if DayFromYear (y + 1) \<le> d then y + 1
         else y)"

definition YearFromTime :: "int \<Rightarrow> int" where
  "YearFromTime t = YearFromDay (Day t)"

definition InLeapYear :: "int \<Rightarrow> int" where
  "InLeapYear t = (if DaysInYear (YearFromTime t) = 366 then 1 else 0)"

definition DayWithinYear :: "int \<Rightarrow> int" where
  "DayWithinYear t = Day t - DayFromYear (YearFromTime t)"

text \<open>The day within the year on which month \<open>m\<close> (0 = January) starts.\<close>

definition MonthStart :: "int \<Rightarrow> int \<Rightarrow> int" where
  "MonthStart leap m =
     (if m = 0 then 0 else if m = 1 then 31 else if m = 2 then 59 + leap
      else if m = 3 then 90 + leap else if m = 4 then 120 + leap
      else if m = 5 then 151 + leap else if m = 6 then 181 + leap
      else if m = 7 then 212 + leap else if m = 8 then 243 + leap
      else if m = 9 then 273 + leap else if m = 10 then 304 + leap
      else 334 + leap)"

definition MonthFromTime :: "int \<Rightarrow> int" where
  "MonthFromTime t =
     (let d = DayWithinYear t; l = InLeapYear t
      in if d < 31 then 0 else if d < 59 + l then 1 else if d < 90 + l then 2
         else if d < 120 + l then 3 else if d < 151 + l then 4
         else if d < 181 + l then 5 else if d < 212 + l then 6
         else if d < 243 + l then 7 else if d < 273 + l then 8
         else if d < 304 + l then 9 else if d < 334 + l then 10 else 11)"

definition DateFromTime :: "int \<Rightarrow> int" where
  "DateFromTime t = DayWithinYear t - MonthStart (InLeapYear t) (MonthFromTime t) + 1"

text \<open>
  \<^verbatim>\<open>MakeDay(year, month, date)\<close>: months outside 0..11 carry into the year; the date may
  be any integer and counts on from the first of the month.
\<close>

definition MakeDay :: "int \<Rightarrow> int \<Rightarrow> int \<Rightarrow> int" where
  "MakeDay year month dt =
     (let ym = year + month div 12; mn = month mod 12;
          leap = (if DaysInYear ym = 366 then 1 else 0)
      in DayFromYear ym + MonthStart leap mn + dt - 1)"

definition MakeDate :: "int \<Rightarrow> int \<Rightarrow> int" where
  "MakeDate day time = day * msPerDay + time"

text \<open>
  The time zone of the platform is a pair of functions, both in milliseconds: the offset of
  local time from UTC in effect at an instant, and the offset by which the platform reads a
  local time as an instant (\<^verbatim>\<open>LocalTZA(t, true)\<close> and \<^verbatim>\<open>LocalTZA(t, false)\<close> in the
  standard). With daylight saving the offset changes from one instant to another, a local
  day is then not 24 hours long, and a local time that the change skips or repeats is read
  with the offset before the change.
\<close>

record zone =
  offsetAt :: "instant \<Rightarrow> int"
  offsetOfLocal :: "int \<Rightarrow> int"

definition LocalTime :: "zone \<Rightarrow> instant \<Rightarrow> int" where
  "LocalTime z t = t + offsetAt z t"

definition UTC :: "zone \<Rightarrow> int \<Rightarrow> int" where
  "UTC z t = t - offsetOfLocal z t"

text \<open>A zone without daylight saving: the same offset at every instant.\<close>

definition fixed_zone :: "int \<Rightarrow> zone" where
  "fixed_zone tza = \<lparr>offsetAt = (\<lambda>t. tza), offsetOfLocal = (\<lambda>t. tza)\<rparr>"

text \<open>
  \<^verbatim>\<open>TimeClip\<close>: a time value more than 100 million days from the epoch is no date.
\<close>

definition TimeClip :: "int \<Rightarrow> instant option" where
  "TimeClip t = (if 8640000000000000 < \<bar>t\<bar> then None else Some t)"

definition getDate :: "zone \<Rightarrow> instant \<Rightarrow> int" where
  "getDate z t = DateFromTime (LocalTime z t)"

definition setDate :: "zone \<Rightarrow> instant \<Rightarrow> int \<Rightarrow> instant option" where
  "setDate z t dt =
     (let lt = LocalTime z t
      in TimeClip
           (UTC z (MakeDate (MakeDay (YearFromTime lt) (MonthFromTime lt) dt) (TimeWithinDay lt))))"

text \<open>\<^verbatim>\<open>d.setHours(0, 0, 0, 0)\<close>: local midnight of the day of \<open>t\<close>.\<close>

definition startOfDay :: "zone \<Rightarrow> instant \<Rightarrow> instant option" where
  "startOfDay z t = TimeClip (UTC z (MakeDate (Day (LocalTime z t)) 0))"

text \<open>\<^verbatim>\<open>end = new Date(start); end.setDate(end.getDate() + days)\<close>\<close>

definition addDays :: "zone \<Rightarrow> instant \<Rightarrow> int \<Rightarrow> instant option" where
  "addDays z start days = setDate z start (getDate z start + days)"

text \<open>
  \<^verbatim>\<open>a < b\<close> and \<^verbatim>\<open>a >= b\<close> on two dates: every comparison with an invalid date is
  false.
\<close>

definition earlier :: "instant option \<Rightarrow> instant option \<Rightarrow> bool" where
  "earlier a b = (case a of None \<Rightarrow> False
                  | Some x \<Rightarrow> (case b of None \<Rightarrow> False | Some y \<Rightarrow> x < y))"


section \<open>The document store\<close>

text \<open>
  A collection is an association list from identifiers to documents, in insertion order.
  \<open>findById\<close> reads a document, \<open>saveDoc\<close> writes it back under its identifier and
  \<open>deleteDoc\<close> removes it.
\<close>

definition findById :: "(oid \<times> 'a) list \<Rightarrow> oid \<Rightarrow> 'a option" where
  "findById coll i = map_of coll i"

definition saveDoc :: "(oid \<times> 'a) list \<Rightarrow> oid \<Rightarrow> 'a \<Rightarrow> (oid \<times> 'a) list" where
  "saveDoc coll i d = AList.update i d coll"

definition deleteDoc :: "(oid \<times> 'a) list \<Rightarrow> oid \<Rightarrow> (oid \<times> 'a) list" where
  "deleteDoc coll i = AList.delete i coll"

definition countDocuments :: "(oid \<times> 'a) list \<Rightarrow> ('a \<Rightarrow> bool) \<Rightarrow> nat" where
  "countDocuments coll P = length (filter (\<lambda>(i, d). P d) coll)"

text \<open>
  Modelled from the spec: the Product model (\<^verbatim>\<open>models/Product.js\<close>) is not among the
  sources. The controllers read and write the fields \<^verbatim>\<open>stock\<close>, \<^verbatim>\<open>inStock\<close> and
  \<^verbatim>\<open>category\<close>; the spec gives the stock as an integer and \<^verbatim>\<open>inStock\<close> as a flag.
\<close>

record product =
  stock :: int
  inStock :: bool
  p_category :: "oid option"

text \<open>
  The Order model (in \<^verbatim>\<open>src/unnamed/part_000\<close>), with the fields the stock
  reconciliation reads and the schema validators on them. The remaining fields (names, amounts, shipping and payment method) do not
  influence the stock; whether their values pass the schema validators is the flag
  \<open>rest_ok\<close> of a request.
\<close>

record order =
  orderNumber :: string
  o_product :: "oid option"
  quantity :: int
  deliveryDate :: instant
  o_status :: string

text \<open>
  Modelled from the spec: the Category model (\<^verbatim>\<open>models/Category.js\<close>) is not among the
  sources. The controller reads the fields \<^verbatim>\<open>_id\<close>, \<^verbatim>\<open>parent\<close> and \<^verbatim>\<open>image\<close>,
  filters on \<^verbatim>\<open>isActive\<close> and sorts on \<^verbatim>\<open>order\<close> and \<^verbatim>\<open>name\<close>; the spec gives
  the parent as an optional reference, an active flag and an order rank.
\<close>

record category =
  c_name :: string
  parent :: "oid option"
  image :: "string option"
  isActive :: bool
  c_order :: int

text \<open>
  The Coupon model (\<^verbatim>\<open>models/Coupon.js\<close>). A path that was never set is \<open>None\<close>
  (\<^verbatim>\<open>undefined\<close> in the source). The discount is an integer percentage.
\<close>

record coupon =
  c_code :: string
  discount :: "int option"
  description :: "string option"
  startDate :: "instant option"
  validityDays :: "int option"
  endDate :: "instant option"
  c_status :: string
  usageLimit :: "int option"
  usedCount :: int

text \<open>
  The Banner model (in \<^verbatim>\<open>src/unnamed/part_000\<close>), with the paths that its hook and the
  controller read back: the image and both dates, which the schema requires, and the status,
  where \<open>None\<close> is a stored null. The paths \<^verbatim>\<open>days\<close> and \<^verbatim>\<open>link\<close> are written and
  never read back.
\<close>

record banner =
  b_image :: string
  b_startDate :: instant
  b_endDate :: instant
  b_status :: "string option"

text \<open>
  The User model (in \<^verbatim>\<open>src/unnamed/part_000\<close>), without the password hash and the
  profile fields that signup leaves at their defaults. A role of \<open>None\<close> is a stored null.
\<close>

record user =
  u_name :: string
  email :: string
  role :: "string option"
  phone :: "string option"

text \<open>
  The state of the server: the collections, the uploaded image files on disk (by their
  paths) and the next fresh identifier.
\<close>

record store =
  products :: "(oid \<times> product) list"
  orders :: "(oid \<times> order) list"
  categories :: "(oid \<times> category) list"
  coupons :: "(oid \<times> coupon) list"
  banners :: "(oid \<times> banner) list"
  users :: "(oid \<times> user) list"
  files :: "string list"
  nextId :: oid

section \<open>Orders and stock reconciliation (\<^verbatim>\<open>src/controllers/orderController.js\<close>)\<close>

text \<open>
  The body of an order-creation request. A required text field that is missing is falsy
  like the empty string, so both are the empty string here. The quantity is a JSON integer
  (on which \<^verbatim>\<open>parseInt\<close> is the identity) or missing.
\<close>

record order_req =
  rq_orderNumber :: string
  rq_product :: "idparam option"
  rq_productName :: string
  rq_quantity :: "int option"
  rq_customerName :: string
  rq_customerLocation :: string
  rq_deliveryDate :: "instant option"
  rq_status :: "string option"
  rq_rest_ok :: bool



text \<open>
  \<^verbatim>\<open>deliveryDate ? new Date(deliveryDate) : new Date(Date.now() + 7 * 24 * 60 * 60 * 1000)\<close>
\<close>

definition parsedDeliveryDate :: "instant \<Rightarrow> order_req \<Rightarrow> instant option" where
  "parsedDeliveryDate now rq =
     (case rq_deliveryDate rq of Some d \<Rightarrow> Some d
      | None \<Rightarrow> TimeClip (now + 7 * 24 * 60 * 60 * 1000))"









section \<open>Coupons (\<^verbatim>\<open>src/models/Coupon.js\<close>, \<^verbatim>\<open>src/controllers/couponController.js\<close>)\<close>

text \<open>
  Comparing \<^verbatim>\<open>now\<close> with a date that may be missing: a missing date gives an invalid
  \<^verbatim>\<open>Date\<close>, against which every comparison is false; the controller's own guards
  (\<^verbatim>\<open>coupon.startDate && now < coupon.startDate\<close>) skip a missing date in the same way.
\<close>

definition before :: "instant \<Rightarrow> instant option \<Rightarrow> bool" where
  "before now d = (case d of None \<Rightarrow> False | Some x \<Rightarrow> now < x)"

definition after :: "instant \<Rightarrow> instant option \<Rightarrow> bool" where
  "after now d = (case d of None \<Rightarrow> False | Some x \<Rightarrow> x < now)"

text \<open>A number in a condition: missing and zero are falsy.\<close>

definition truthy :: "int option \<Rightarrow> bool" where
  "truthy n = (case n of None \<Rightarrow> False | Some v \<Rightarrow> v \<noteq> 0)"

text \<open>\<^verbatim>\<open>this.usageLimit && this.usedCount >= this.usageLimit\<close>\<close>

definition limitReached :: "coupon \<Rightarrow> bool" where
  "limitReached c = (case usageLimit c of None \<Rightarrow> False | Some l \<Rightarrow> l \<noteq> 0 \<and> l \<le> usedCount c)"

definition isValid :: "instant \<Rightarrow> coupon \<Rightarrow> bool" where
  "isValid now c =
     (if before now (startDate c) \<or> after now (endDate c) then False
      else if c_status c \<noteq> ''active'' then False
      else if limitReached c then False
      else True)"

text \<open>
  The \<^verbatim>\<open>pre('save')\<close> hook. When the end that it computes is outside the range of
  \<^verbatim>\<open>Date\<close>, the cast of the path refuses the assignment and the end date stays as it
  was.
\<close>

definition coupon_pre_save :: "zone \<Rightarrow> coupon \<Rightarrow> coupon" where
  "coupon_pre_save z c =
     (case startDate c of
        None \<Rightarrow> c
      | Some st \<Rightarrow>
          (case validityDays c of
             None \<Rightarrow> c
           | Some d \<Rightarrow>
               if d = 0 then c
               else (case addDays z st d of
                       None \<Rightarrow> c
                     | Some end \<Rightarrow> c\<lparr>endDate := Some end\<rparr>)))"

definition coupon_statuses :: "string list" where
  "coupon_statuses = [''active'', ''inactive'', ''expired'']"

text \<open>The validators of the coupon schema.\<close>

definition coupon_validate :: "coupon \<Rightarrow> bool" where
  "coupon_validate c =
     (c_code c \<noteq> [] \<and> length (c_code c) \<le> 50
      \<and> (case discount c of None \<Rightarrow> False | Some d \<Rightarrow> 0 \<le> d \<and> d \<le> 100)
      \<and> (case description c of None \<Rightarrow> True | Some t \<Rightarrow> length t \<le> 500)
      \<and> startDate c \<noteq> None
      \<and> (case validityDays c of None \<Rightarrow> False | Some d \<Rightarrow> 1 \<le> d)
      \<and> c_status c \<in> set coupon_statuses
      \<and> (case usageLimit c of None \<Rightarrow> True | Some l \<Rightarrow> 0 \<le> l)
      \<and> 0 \<le> usedCount c)"

text \<open>
  \<^verbatim>\<open>save()\<close> of the coupon document with identifier \<open>i\<close>: the setters of the code, the
  validators, the \<^verbatim>\<open>pre('save')\<close> hook, and the write under the unique index on the code.
  \<open>None\<close> is a thrown validation or duplicate-key error.
\<close>

definition Coupon_save :: "zone \<Rightarrow> store \<Rightarrow> oid \<Rightarrow> coupon \<Rightarrow> store option" where
  "Coupon_save z s i c =
     (let doc = c\<lparr>c_code := toUpperCase (trim (c_code c))\<rparr>
      in if coupon_validate doc
            \<and> c_code doc \<notin> set (map (c_code \<circ> snd) (filter (\<lambda>(j, d). j \<noteq> i) (coupons s)))
         then Some (s\<lparr>coupons := saveDoc (coupons s) i (coupon_pre_save z doc)\<rparr>)
         else None)"

definition Coupon_create :: "zone \<Rightarrow> store \<Rightarrow> coupon \<Rightarrow> store option" where
  "Coupon_create z s c =
     (case Coupon_save z s (nextId s) c of
        None \<Rightarrow> None
      | Some s' \<Rightarrow> Some (s'\<lparr>nextId := Suc (nextId s)\<rparr>))"

text \<open>
  The body of a coupon-creation request: the code (missing is falsy like the empty string),
  integer discount, validity and usage limit, and a start date that is either missing or
  already a valid instant.
\<close>

record coupon_req =
  cr_code :: string
  cr_discount :: "int option"
  cr_description :: "string option"
  cr_startDate :: "instant option"
  cr_validityDays :: "int option"
  cr_status :: "string option"
  cr_usageLimit :: "int option"

definition findByCode :: "store \<Rightarrow> string \<Rightarrow> (oid \<times> coupon) option" where
  "findByCode s cd = find (\<lambda>(i, c). c_code c = cd) (coupons s)"

text \<open>
  \<open>createCoupon\<close> computes the end date itself and passes it to \<^verbatim>\<open>Coupon.create\<close>, whose
  cast refuses an invalid date.
\<close>

definition createCoupon :: "zone \<Rightarrow> instant \<Rightarrow> store \<Rightarrow> coupon_req \<Rightarrow> response \<times> store" where
  "createCoupon z now s rq =
     (case (cr_discount rq, cr_validityDays rq) of
        (Some discountNum, Some daysNum) \<Rightarrow>
          if cr_code rq = []
          then (reply 400 False ''Coupon code, discount, and validity days are required'', s)
          else if discountNum < 0 \<or> 100 < discountNum
          then (reply 400 False ''Discount must be between 0 and 100'', s)
          else if daysNum < 1
          then (reply 400 False ''Validity days must be at least 1 day'', s)
          else if findByCode s (toUpperCase (cr_code rq)) \<noteq> None
          then (reply 400 False ''Coupon code already exists'', s)
          else
            let start = (case cr_startDate rq of Some d \<Rightarrow> d | None \<Rightarrow> now)
            in (case addDays z start daysNum of
                  None \<Rightarrow> (reply 400 False ''Failed to create coupon'', s)
                | Some end \<Rightarrow>
                    (case Coupon_create z s
                            \<lparr>c_code = toUpperCase (cr_code rq),
                             discount = Some discountNum,
                             description =
                               (case cr_description rq of None \<Rightarrow> None
                                | Some t \<Rightarrow> if t = [] then None else Some t),
                             startDate = Some start,
                             validityDays = Some daysNum,
                             endDate = Some end,
                             c_status =
                               (case cr_status rq of None \<Rightarrow> ''active''
                                | Some st \<Rightarrow> if st = [] then ''active'' else st),
                             usageLimit =
                               (if truthy (cr_usageLimit rq) then cr_usageLimit rq else None),
                             usedCount = 0\<rparr> of
                       Some s' \<Rightarrow> (reply 201 True ''Coupon created successfully'', s')
                     | None \<Rightarrow> (reply 400 False ''Failed to create coupon'', s)))
      | _ \<Rightarrow> (reply 400 False ''Coupon code, discount, and validity days are required'', s))"

definition getCouponByCode :: "instant \<Rightarrow> store \<Rightarrow> string \<Rightarrow> response \<times> store" where
  "getCouponByCode now s cd =
     (case findByCode s (toUpperCase cd) of
        None \<Rightarrow> (reply 404 False ''Coupon not found'', s)
      | Some (i, coupon) \<Rightarrow>
          if before now (startDate coupon)
          then (reply 400 False ''Coupon is not yet active'', s)
          else if after now (endDate coupon)
          then (reply 400 False ''Coupon has expired'',
                s\<lparr>coupons := saveDoc (coupons s) i (coupon\<lparr>c_status := ''expired''\<rparr>)\<rparr>)
          else if c_status coupon \<noteq> ''active''
          then (reply 400 False ''Coupon is not active'', s)
          else if limitReached coupon
          then (reply 400 False ''Coupon usage limit reached'', s)
          else (\<lparr>code = 200, success = True, message = NoMessage\<rparr>, s))"

section \<open>Banners (the model in \<^verbatim>\<open>src/unnamed/part_000\<close>, the controller in \<^verbatim>\<open>src/unnamed/part_001\<close>)\<close>

text \<open>The \<^verbatim>\<open>pre('save')\<close> hook: two conditionals, one after the other.\<close>

definition banner_pre_save :: "instant \<Rightarrow> banner \<Rightarrow> banner" where
  "banner_pre_save now b =
     (let b1 = (if b_startDate b \<le> now \<and> now \<le> b_endDate b \<and> b_status b = Some ''pending''
                then b\<lparr>b_status := Some ''active''\<rparr> else b)
      in if b_endDate b1 < now \<and> b_status b1 = Some ''active''
         then b1\<lparr>b_status := Some ''expired''\<rparr> else b1)"

definition banner_statuses :: "string list" where
  "banner_statuses = [''active'', ''inactive'', ''pending'', ''expired'']"

text \<open>
  What the schema makes of a value for the status: \<open>None\<close> when the cast or the
  \<^verbatim>\<open>enum\<close> validator refuses it, and else the status to store. The validator lets null
  pass.
\<close>

definition castStatus :: "json \<Rightarrow> string option option" where
  "castStatus v =
     (case castString v of
        CastError \<Rightarrow> None
      | CastNull \<Rightarrow> Some None
      | Cast t \<Rightarrow> if t \<in> set banner_statuses then Some (Some t) else None)"

text \<open>The image file of a banner on disk.\<close>

definition bannerPath :: "string \<Rightarrow> string" where
  "bannerPath filename = ''/uploads/banners/'' @ filename"

text \<open>
  The values that \<open>createBanner\<close> passes to \<^verbatim>\<open>Banner.create\<close>: the file name, the number
  of days (\<open>None\<close> is \<^verbatim>\<open>NaN\<close>), the two dates (\<open>None\<close> is an invalid date) and the
  status. Whether the link passes the cast of its path is the flag \<open>in_rest_ok\<close>.
\<close>

record banner_input =
  in_image :: string
  in_days :: "int option"
  in_startDate :: "instant option"
  in_endDate :: "instant option"
  in_status :: json
  in_rest_ok :: bool

text \<open>
  \<^verbatim>\<open>Banner.create\<close>: the casts and the validators of the schema, then the
  \<^verbatim>\<open>pre('save')\<close> hook, then the insertion. \<open>None\<close> is a thrown cast or validation
  error.
\<close>

definition Banner_create :: "instant \<Rightarrow> store \<Rightarrow> banner_input \<Rightarrow> store option" where
  "Banner_create now s inp =
     (case (in_days inp, in_startDate inp, in_endDate inp, castStatus (in_status inp)) of
        (Some d, Some st, Some e, Some status) \<Rightarrow>
          if in_rest_ok inp \<and> in_image inp \<noteq> [] \<and> 1 \<le> d
          then Some (s\<lparr>banners := banners s @
                          [(nextId s,
                            banner_pre_save now
                              \<lparr>b_image = in_image inp, b_startDate = st, b_endDate = e,
                               b_status = status\<rparr>)],
                       nextId := Suc (nextId s)\<rparr>)
          else None
      | _ \<Rightarrow> None)"

text \<open>
  The request of \<open>createBanner\<close> as the controller reads it. The start date is \<open>None\<close>
  when the field is missing or falsy, and else the date \<^verbatim>\<open>new Date(startDate)\<close>, which is
  \<open>None\<close> when the field is no date. The days are \<open>None\<close> when the field is missing or
  falsy, and else the number \<^verbatim>\<open>parseInt(days)\<close>, which is \<open>None\<close> for \<^verbatim>\<open>NaN\<close>. The
  file is the name under which the upload middleware has stored the image before the
  controller runs.
\<close>

record banner_req =
  br_startDate :: "instant option option"
  br_days :: "int option option"
  br_file :: "string option"
  br_status :: "json option"
  br_rest_ok :: bool

definition createBanner :: "zone \<Rightarrow> instant \<Rightarrow> store \<Rightarrow> banner_req \<Rightarrow> response \<times> store" where
  "createBanner z now s rq =
     (case (br_startDate rq, br_days rq) of
        (Some start, Some daysNum) \<Rightarrow>
          (case br_file rq of
             None \<Rightarrow> (reply 400 False ''Banner image is required'', s)
           | Some imageFilename \<Rightarrow>
               if imageFilename = []
               then (reply 400 False ''Banner image is required'', s)
               else
                 let end = (case (start, daysNum) of
                              (Some st, Some d) \<Rightarrow> addDays z st d
                            | _ \<Rightarrow> None)
                 in (case Banner_create now s
                            \<lparr>in_image = imageFilename,
                             in_days = daysNum,
                             in_startDate = start,
                             in_endDate = end,
                             in_status = (case br_status rq of
                                            None \<Rightarrow> JStr ''pending''
                                          | Some v \<Rightarrow> if truthyJ v then v else JStr ''pending''),
                             in_rest_ok = br_rest_ok rq\<rparr> of
                       Some s' \<Rightarrow> (reply 201 True ''Banner created successfully'', s')
                     | None \<Rightarrow>
                         (reply 400 False ''Failed to create banner'',
                          s\<lparr>files := removeAll (bannerPath imageFilename) (files s)\<rparr>)))
      | _ \<Rightarrow> (reply 400 False ''Start date and number of days are required'', s))"

text \<open>
  The request of \<open>updateBanner\<close>. The controller reads the start date and the days as
  \<open>createBanner\<close> does, and the uploaded file. It passes the body to
  \<^verbatim>\<open>Banner.findByIdAndUpdate\<close>, which casts and validates the paths that the body names:
  the image and the status are any value; for each date the request says what the cast of
  the schema makes of the body's value (\<open>None\<close> when the body does not name the path);
  whether the days and the link pass is the flag \<open>ub_rest_ok\<close>. The body names paths of
  the schema, no update operators.
\<close>

record banner_update =
  ub_startDate :: "instant option option"
  ub_days :: "int option option"
  ub_file :: "string option"
  ub_image :: "json option"
  ub_status :: "json option"
  ub_startDate_cast :: "instant cast option"
  ub_endDate_cast :: "instant cast option"
  ub_rest_ok :: bool

text \<open>
  A required path in an update: unchanged when the body does not name it, refused
  (\<open>None\<close>) when the value is null or fails the cast.
\<close>

definition requiredPath :: "'a \<Rightarrow> 'a cast option \<Rightarrow> 'a option" where
  "requiredPath old v =
     (case v of None \<Rightarrow> Some old
      | Some CastError \<Rightarrow> None
      | Some CastNull \<Rightarrow> None
      | Some (Cast x) \<Rightarrow> Some x)"

text \<open>
  \<open>updateBanner\<close> writes with \<^verbatim>\<open>findByIdAndUpdate\<close>, which runs the casts and, by
  \<^verbatim>\<open>runValidators\<close>, the validators, and no \<^verbatim>\<open>save\<close> hook; the controller does not read the
  clock. The old image file is deleted before the write, whether or not the write succeeds.
\<close>

definition updateBanner :: "zone \<Rightarrow> store \<Rightarrow> idparam \<Rightarrow> banner_update \<Rightarrow> response \<times> store" where
  "updateBanner z s ident rq =
     (case ident of
        Malformed \<Rightarrow> (reply 400 False ''Failed to update banner'', s)
      | WellFormed i \<Rightarrow>
          (case findById (banners s) i of
             None \<Rightarrow> (reply 404 False ''Banner not found'', s)
           | Some banner \<Rightarrow>
               let endDate = (case (ub_startDate rq, ub_days rq) of
                                (Some newStart, Some newDays) \<Rightarrow>
                                  Some (case (newStart, newDays) of
                                          (Some st, Some d) \<Rightarrow>
                                            (case addDays z st d of
                                               None \<Rightarrow> CastError
                                             | Some newEnd \<Rightarrow> Cast newEnd)
                                        | _ \<Rightarrow> CastError)
                              | _ \<Rightarrow> ub_endDate_cast rq);
                   s1 = (case ub_file rq of
                           None \<Rightarrow> s
                         | Some f \<Rightarrow>
                             if b_image banner \<noteq> []
                             then s\<lparr>files := removeAll (bannerPath (b_image banner)) (files s)\<rparr>
                             else s);
                   image = (case ub_file rq of
                              None \<Rightarrow> map_option castString (ub_image rq)
                            | Some f \<Rightarrow> Some (Cast f))
               in (case (requiredPath (b_image banner) image,
                         requiredPath (b_startDate banner) (ub_startDate_cast rq),
                         requiredPath (b_endDate banner) endDate,
                         (case ub_status rq of
                            None \<Rightarrow> Some (b_status banner)
                          | Some v \<Rightarrow> castStatus v)) of
                     (Some im, Some st, Some e, Some status) \<Rightarrow>
                       if ub_rest_ok rq \<and> im \<noteq> []
                       then (reply 200 True ''Banner updated successfully'',
                             s1\<lparr>banners := saveDoc (banners s1) i
                                   \<lparr>b_image = im, b_startDate = st, b_endDate = e,
                                    b_status = status\<rparr>\<rparr>)
                       else (reply 400 False ''Failed to update banner'', s1)
                   | _ \<Rightarrow> (reply 400 False ''Failed to update banner'', s1))))"

section \<open>Categories (\<^verbatim>\<open>src/controllers/categoryController.js\<close>)\<close>

text \<open>
  A category document as the tree builder reads it. Its parent path holds null, the
  identifier of the parent, or, after \<^verbatim>\<open>populate('parent', 'name slug')\<close>, the document of
  the parent with its identifier and name.
\<close>

datatype parent_value = ParentId oid | ParentDoc oid string

record cat_doc =
  d_id :: oid
  d_name :: string
  d_parent :: "parent_value option"
  d_image :: "string option"
  d_isActive :: bool
  d_order :: int

text \<open>
  The keys of the builder's map are texts, made by \<^verbatim>\<open>toString()\<close>. The text of an
  identifier is its 24 hexadecimal digits. The text of a document is the printed form of its
  fields (mongoose, \<^verbatim>\<open>Document.prototype.toString\<close>), which is the text of no identifier.
\<close>

datatype key = IdText oid | DocText oid string

definition idText :: "cat_doc \<Rightarrow> key" where
  "idText cat = IdText (d_id cat)"

fun parentText :: "parent_value \<Rightarrow> key" where
  "parentText (ParentId p) = IdText p"
| "parentText (ParentDoc p n) = DocText p n"

text \<open>
  \<open>buildCategoryTree\<close> works on objects that it shares between its map, the children arrays
  and the root array. The model keeps the objects in the map, under their keys; a children
  array and the root array hold keys.
\<close>

record node =
  n_doc :: cat_doc
  children :: "key list"

text \<open>
  First pass: an entry with no children for every category, a later one replacing an earlier
  one with the same identifier.
\<close>

fun firstPass :: "cat_doc list \<Rightarrow> (key \<times> node) list \<Rightarrow> (key \<times> node) list" where
  "firstPass [] categoryMap = categoryMap"
| "firstPass (cat # rest) categoryMap =
     firstPass rest (AList.update (idText cat) \<lparr>n_doc = cat, children = []\<rparr> categoryMap)"

text \<open>Second pass: every category is pushed to its parent's children or to the roots.\<close>

fun secondPass ::
    "cat_doc list \<Rightarrow> (key \<times> node) list \<Rightarrow> key list \<Rightarrow> key list \<times> (key \<times> node) list" where
  "secondPass [] categoryMap rootCategories = (rootCategories, categoryMap)"
| "secondPass (cat # rest) categoryMap rootCategories =
     (case d_parent cat of
        Some p \<Rightarrow>
          (case map_of categoryMap (parentText p) of
             Some parentObj \<Rightarrow>
               secondPass rest
                 (AList.update (parentText p)
                    (parentObj\<lparr>children := children parentObj @ [idText cat]\<rparr>) categoryMap)
                 rootCategories
           | None \<Rightarrow> secondPass rest categoryMap (rootCategories @ [idText cat]))
      | None \<Rightarrow> secondPass rest categoryMap (rootCategories @ [idText cat]))"

text \<open>
  The value of an object of the map: its document and, nested, the values of its children.
  An object that contains itself has no such value (\<open>None\<close>); the depth of the reading is
  bounded by the number of objects.
\<close>

datatype tree = Tree cat_doc "tree list"

fun readTree :: "nat \<Rightarrow> (key \<times> node) list \<Rightarrow> key \<Rightarrow> tree option" where
  "readTree 0 categoryMap k = None"
| "readTree (Suc n) categoryMap k =
     (case map_of categoryMap k of
        None \<Rightarrow> None
      | Some obj \<Rightarrow>
          map_option (Tree (n_doc obj)) (those (map (readTree n categoryMap) (children obj))))"

text \<open>The function returns the root array; its value is the list of the values of the roots.\<close>

definition buildCategoryTree :: "cat_doc list \<Rightarrow> tree list option" where
  "buildCategoryTree cats =
     (case secondPass cats (firstPass cats []) [] of
        (rootCategories, categoryMap) \<Rightarrow>
          those (map (readTree (Suc (length categoryMap)) categoryMap) rootCategories))"

text \<open>
  The query string of \<open>getAllCategories\<close>. The parameter \<^verbatim>\<open>parent\<close> is missing or empty,
  or one text, or, when the query string gives it more than once, an array of texts.
  \<^verbatim>\<open>isActive\<close> is \<open>None\<close> when missing or empty, and else says whether it is the text
  \<^verbatim>\<open>true\<close>; \<^verbatim>\<open>nested\<close> says whether the parameter is the text \<^verbatim>\<open>true\<close>. The
  parameter \<^verbatim>\<open>includeProducts\<close> adds a product count to the elements of the answer and
  changes nothing else; it is left out.
\<close>

datatype parent_param = NoParent | OneParent idparam | ManyParents "idparam list"

record category_query =
  q_parent :: parent_param
  q_isActive :: "bool option"
  q_nested :: bool

text \<open>
  The filter on the parent: null matches the categories without a parent, an identifier
  those with that parent, an array those whose parent is among its elements. \<open>None\<close> is
  the cast error of a text that is no identifier.
\<close>

fun wellFormedIds :: "idparam list \<Rightarrow> oid list option" where
  "wellFormedIds [] = Some []"
| "wellFormedIds (Malformed # rest) = None"
| "wellFormedIds (WellFormed i # rest) = map_option ((#) i) (wellFormedIds rest)"

definition parentFilter :: "parent_param \<Rightarrow> (category \<Rightarrow> bool) option" where
  "parentFilter pp =
     (case pp of
        NoParent \<Rightarrow> Some (\<lambda>c. parent c = None)
      | OneParent Malformed \<Rightarrow> None
      | OneParent (WellFormed p) \<Rightarrow> Some (\<lambda>c. parent c = Some p)
      | ManyParents ps \<Rightarrow>
          map_option (\<lambda>ids c. case parent c of None \<Rightarrow> False | Some p \<Rightarrow> p \<in> set ids)
            (wellFormedIds ps))"

text \<open>
  \<^verbatim>\<open>.sort({ order: 1, name: 1 })\<close>: by order rank, then by name, byte by byte; documents
  that agree in both stay in the order of the collection.
\<close>

fun textLess :: "string \<Rightarrow> string \<Rightarrow> bool" where
  "textLess [] [] = False"
| "textLess [] (y # ys) = True"
| "textLess (x # xs) [] = False"
| "textLess (x # xs) (y # ys) =
     ((of_char x :: nat) < of_char y \<or> (x = y \<and> textLess xs ys))"

definition sortsAfter :: "category \<Rightarrow> category \<Rightarrow> bool" where
  "sortsAfter a b =
     (c_order b < c_order a \<or> (c_order a = c_order b \<and> textLess (c_name b) (c_name a)))"

fun insertSorted :: "oid \<times> category \<Rightarrow> (oid \<times> category) list \<Rightarrow> (oid \<times> category) list" where
  "insertSorted x [] = [x]"
| "insertSorted x (y # ys) =
     (if sortsAfter (snd x) (snd y) then y # insertSorted x ys else x # y # ys)"

definition sortByOrderAndName :: "(oid \<times> category) list \<Rightarrow> (oid \<times> category) list" where
  "sortByOrderAndName cats = foldr insertSorted cats []"

text \<open>
  \<^verbatim>\<open>populate('parent', 'name slug')\<close> puts the document of the parent in the place of its
  identifier, and null when there is no such document.
\<close>

definition populate :: "store \<Rightarrow> oid \<times> category \<Rightarrow> cat_doc" where
  "populate s ic =
     (case ic of
        (i, c) \<Rightarrow>
          \<lparr>d_id = i, d_name = c_name c,
           d_parent = (case parent c of
                         None \<Rightarrow> None
                       | Some p \<Rightarrow>
                           (case findById (categories s) p of
                              None \<Rightarrow> None
                            | Some pc \<Rightarrow> Some (ParentDoc p (c_name pc)))),
           d_image = image c, d_isActive = isActive c, d_order = c_order c\<rparr>)"

text \<open>
  The answer of \<open>getAllCategories\<close> carries the documents as a flat list, or the value of the
  root array of \<open>buildCategoryTree\<close>. A root array without a value cannot be written as
  JSON, which throws into the error branch.
\<close>

datatype listing = Flat "cat_doc list" | Nested "tree list"

definition getAllCategories :: "store \<Rightarrow> category_query \<Rightarrow> response \<times> listing option" where
  "getAllCategories s q =
     (case parentFilter (q_parent q) of
        None \<Rightarrow> (reply 500 False ''Failed to fetch categories'', None)
      | Some matches \<Rightarrow>
          let found = filter (\<lambda>(i, c). matches c
                                \<and> (case q_isActive q of None \<Rightarrow> True | Some a \<Rightarrow> isActive c = a))
                        (categories s);
              listed = map (populate s) (sortByOrderAndName found)
          in if q_nested q
             then (case buildCategoryTree listed of
                     None \<Rightarrow> (reply 500 False ''Failed to fetch categories'', None)
                   | Some roots \<Rightarrow>
                       (\<lparr>code = 200, success = True, message = NoMessage\<rparr>, Some (Nested roots)))
             else (\<lparr>code = 200, success = True, message = NoMessage\<rparr>, Some (Flat listed)))"

definition deleteCategory :: "store \<Rightarrow> idparam \<Rightarrow> response \<times> store" where
  "deleteCategory s ident =
     (case ident of
        Malformed \<Rightarrow> (reply 400 False ''Invalid category ID'', s)
      | WellFormed i \<Rightarrow>
          (case findById (categories s) i of
             None \<Rightarrow> (reply 404 False ''Category not found'', s)
           | Some cat \<Rightarrow>
               let childrenCount = countDocuments (categories s) (\<lambda>c. parent c = Some i)
               in if 0 < childrenCount
                  then (reply 400 False
                          ''Cannot delete category with subcategories. Please delete or move subcategories first.'',
                        s)
                  else
                    let productCount = countDocuments (products s) (\<lambda>p. p_category p = Some i)
                    in if 0 < productCount
                       then (\<lparr>code = 400, success = False,
                              message = CategoryHasProductsMsg productCount\<rparr>, s)
                       else
                         let s1 = (case image cat of
                                     None \<Rightarrow> s
                                   | Some img \<Rightarrow>
                                       if img \<noteq> [] \<and> img \<in> set (files s)
                                       then s\<lparr>files := removeAll img (files s)\<rparr> else s)
                         in (reply 200 True ''Category deleted successfully'',
                             s1\<lparr>categories := deleteDoc (categories s1) i\<rparr>)))"

section \<open>Signup (the authentication controller in \<^verbatim>\<open>src/unnamed/part_002\<close>)\<close>

text \<open>
  The sources hold two versions of the authentication controller. The one modelled here
  accepts a phone number in place of an email; the other one,
  \<^verbatim>\<open>src/controllers/authController.js\<close>, refuses a request without an email in its
  first check and computes the role of the new user in the same way.
\<close>

text \<open>
  \<^verbatim>\<open>/^[^\s@]+@[^\s@]+\.[^\s@]+$/\<close>: one \<^verbatim>\<open>@\<close>, no white space, a non-empty local
  part, and a dot inside the part after the \<^verbatim>\<open>@\<close>.
\<close>

definition isValidEmail :: "string \<Rightarrow> bool" where
  "isValidEmail em =
     (let local = takeWhile (\<lambda>c. c \<noteq> CHR ''@'') em;
          rest = dropWhile (\<lambda>c. c \<noteq> CHR ''@'') em
      in local \<noteq> [] \<and> rest \<noteq> [] \<and> CHR ''@'' \<notin> set (tl rest)
         \<and> CHR ''.'' \<in> set (butlast (tl (tl rest)))
         \<and> (\<forall>c \<in> set em. \<not> is_space c))"

definition isValidPassword :: "string \<Rightarrow> bool" where
  "isValidPassword pw = (pw \<noteq> [] \<and> 6 \<le> length pw)"

text \<open>
  \<^verbatim>\<open>/^[0-9]{10,15}$/\<close> on the phone number without white space, hyphens and
  parentheses.
\<close>

definition is_digit :: "char \<Rightarrow> bool" where
  "is_digit c = (48 \<le> (of_char c :: nat) \<and> (of_char c :: nat) \<le> 57)"

definition isValidPhone :: "string \<Rightarrow> bool" where
  "isValidPhone ph =
     (let digits = filter (\<lambda>c. \<not> (is_space c \<or> c = CHR ''-'' \<or> c = CHR ''('' \<or> c = CHR '')'')) ph
      in 10 \<le> length digits \<and> length digits \<le> 15 \<and> (\<forall>c \<in> set digits. is_digit c))"

text \<open>The schema's own pattern for the email, \<^verbatim>\<open>/^\S+@\S+\.\S+$/\<close>.\<close>

definition email_matches :: "string \<Rightarrow> bool" where
  "email_matches em =
     (let rest = dropWhile (\<lambda>c. c \<noteq> CHR ''@'') (tl em)
      in em \<noteq> [] \<and> rest \<noteq> [] \<and> CHR ''.'' \<in> set (butlast (tl (tl rest)))
         \<and> (\<forall>c \<in> set em. \<not> is_space c))"

definition user_roles :: "string list" where
  "user_roles = [''customer'', ''admin'']"

text \<open>
  The values that \<open>signup\<close> passes to \<^verbatim>\<open>User.create\<close>. The role is the value that the
  controller computed from the body, of any type.
\<close>

record new_user =
  nu_name :: string
  nu_email :: string
  nu_role :: json
  nu_phone :: "string option"

text \<open>
  \<^verbatim>\<open>User.create\<close> of a user with password \<open>pw\<close>: the cast of the role to the type of
  its path, the schema setters and validators (the \<^verbatim>\<open>enum\<close> validator lets null pass)
  and the unique index on the email. \<open>None\<close> is a thrown cast, validation or
  duplicate-key error. The hook that replaces the password by its hash is not modelled.
\<close>

definition User_create :: "store \<Rightarrow> string \<Rightarrow> new_user \<Rightarrow> (oid \<times> user \<times> store) option" where
  "User_create s pw u =
     (case (case castString (nu_role u) of
              CastError \<Rightarrow> None
            | CastNull \<Rightarrow> Some None
            | Cast r \<Rightarrow> if r \<in> set user_roles then Some (Some r) else None) of
        None \<Rightarrow> None
      | Some userRole \<Rightarrow>
          let doc = \<lparr>u_name = trim (nu_name u), email = toLowerCase (trim (nu_email u)),
                     role = userRole, phone = map_option trim (nu_phone u)\<rparr>
          in if u_name doc \<noteq> [] \<and> length (u_name doc) \<le> 100
                \<and> email doc \<noteq> [] \<and> email_matches (email doc)
                \<and> pw \<noteq> [] \<and> 6 \<le> length pw
                \<and> email doc \<notin> set (map (email \<circ> snd) (users s))
             then Some (nextId s, doc,
                        s\<lparr>users := users s @ [(nextId s, doc)], nextId := Suc (nextId s)\<rparr>)
             else None)"

text \<open>
  The body of a signup request. Name and password are texts (missing is falsy like the
  empty string). Email and phone may be missing (\<open>None\<close>) or any text; the source calls a
  string method on the email, which throws when the email is missing. The role may be
  missing or any value: the controller compares it and passes it on without a check of its
  type.
\<close>

record signup_req =
  sr_name :: string
  sr_email :: "string option"
  sr_password :: string
  sr_phone :: "string option"
  sr_role :: "json option"

record session =
  userId :: oid
  userRole :: "string option"
  userEmail :: string
  userName :: string

definition present :: "string option \<Rightarrow> bool" where
  "present v = (case v of None \<Rightarrow> False | Some t \<Rightarrow> t \<noteq> [])"

text \<open>
  The query \<^verbatim>\<open>{ $or: [ { email: e }, { phone: p } ] }\<close>, where a missing \<open>e\<close> or \<open>p\<close> is
  \<^verbatim>\<open>null\<close> and matches the documents without that field.
\<close>

definition existingUser :: "store \<Rightarrow> string option \<Rightarrow> string option \<Rightarrow> (oid \<times> user) option" where
  "existingUser s e p = find (\<lambda>(i, u). Some (email u) = e \<or> phone u = p) (users s)"

definition signup :: "store \<Rightarrow> signup_req \<Rightarrow> response \<times> store \<times> session option" where
  "signup s rq =
     (if sr_name rq = [] \<or> sr_password rq = []
      then (reply 400 False ''Name and password are required'', s, None)
      else if \<not> present (sr_email rq) \<and> \<not> present (sr_phone rq)
      then (reply 400 False ''Either email or phone number must be provided'', s, None)
      else if (case sr_email rq of None \<Rightarrow> False | Some em \<Rightarrow> em \<noteq> [] \<and> \<not> isValidEmail em)
      then (reply 400 False ''Please provide a valid email address'', s, None)
      else if (case sr_phone rq of None \<Rightarrow> False | Some ph \<Rightarrow> ph \<noteq> [] \<and> \<not> isValidPhone ph)
      then (reply 400 False ''Please provide a valid phone number'', s, None)
      else if length (trim (sr_name rq)) < 2
      then (reply 400 False ''Name must be at least 2 characters long'', s, None)
      else if 100 < length (trim (sr_name rq))
      then (reply 400 False ''Name cannot exceed 100 characters'', s, None)
      else if \<not> isValidPassword (sr_password rq)
      then (reply 400 False ''Password must be at least 6 characters long'', s, None)
      else if existingUser s
                (if present (sr_email rq) then map_option (trim \<circ> toLowerCase) (sr_email rq) else None)
                (if present (sr_phone rq) then map_option trim (sr_phone rq) else None) \<noteq> None
      then (reply 400 False ''User with the provided email or phone number already exists'', s, None)
      else
        let userRole = (case sr_role rq of
                          None \<Rightarrow> JStr ''customer''
                        | Some r \<Rightarrow> if r = JStr ''admin'' then JStr ''customer''
                                    else if truthyJ r then r else JStr ''customer'')
        in (case sr_email rq of
              None \<Rightarrow> (reply 400 False ''Failed to register user'', s, None)
            | Some em \<Rightarrow>
                (case User_create s (sr_password rq)
                        \<lparr>nu_name = trim (sr_name rq),
                         nu_email = trim (toLowerCase em),
                         nu_role = userRole,
                         nu_phone = (if present (sr_phone rq) then map_option trim (sr_phone rq)
                                     else None)\<rparr> of
                   None \<Rightarrow> (reply 400 False ''Failed to register user'', s, None)
                 | Some (i, u, s') \<Rightarrow>
                     (reply 201 True ''User registered successfully'', s',
                      Some \<lparr>userId = i, userRole = role u, userEmail = email u,
                            userName = u_name u\<rparr>))))"

section \<open>Notions used in the statements\<close>






text \<open>
  The eligibility of a coupon in the words of the spec: \<open>now\<close> within the closed range from
  start to end, status active, and the usage limit absent or not yet reached.
\<close>

definition isEligible_spec :: "instant \<Rightarrow> coupon \<Rightarrow> bool" where
  "isEligible_spec now c =
     ((case startDate c of None \<Rightarrow> False | Some st \<Rightarrow> st \<le> now)
      \<and> (case endDate c of None \<Rightarrow> False | Some e \<Rightarrow> now \<le> e)
      \<and> c_status c = ''active''
      \<and> (case usageLimit c of None \<Rightarrow> True | Some l \<Rightarrow> usedCount c < l))"

text \<open>An active coupon valid for the first day of the epoch, with a usage limit and a count.\<close>

definition window_coupon :: "int option \<Rightarrow> int \<Rightarrow> coupon" where
  "window_coupon l u =
     \<lparr>c_code = ''SAVE10'', discount = Some 10, description = None, startDate = Some 0,
      validityDays = Some 1, endDate = Some 86400000, c_status = ''active'',
      usageLimit = l, usedCount = u\<rparr>"

definition coupon_store :: "(oid \<times> coupon) list \<Rightarrow> store" where
  "coupon_store cs = \<lparr>products = [], orders = [], categories = [], coupons = cs, banners = [],
                     users = [], files = [], nextId = 1 + length cs\<rparr>"

text \<open>A coupon, and a store, in which every usage limit of zero is taken away.\<close>

definition zeroLimitAsAbsent :: "coupon \<Rightarrow> coupon" where
  "zeroLimitAsAbsent c = (if usageLimit c = Some 0 then c\<lparr>usageLimit := None\<rparr> else c)"

definition zeroLimitsAsAbsent :: "store \<Rightarrow> store" where
  "zeroLimitsAsAbsent s = s\<lparr>coupons := map (\<lambda>(i, c). (i, zeroLimitAsAbsent c)) (coupons s)\<rparr>"

text \<open>
  The start \<open>st\<close> plus \<open>d\<close> calendar days, in the words of the spec: the local date and time
  of \<open>st\<close> moved on by \<open>d\<close> days, the time of day kept, and read as an instant by the zone;
  no date when that instant is outside the range of dates.
\<close>

definition plusCalendarDays :: "zone \<Rightarrow> instant \<Rightarrow> int \<Rightarrow> instant option" where
  "plusCalendarDays z st d = TimeClip (UTC z (LocalTime z st + d * msPerDay))"

text \<open>The year, the month (from 0) and the day of the month that the local calendar shows.\<close>

definition calendar :: "zone \<Rightarrow> instant \<Rightarrow> int \<times> int \<times> int" where
  "calendar z t = (YearFromTime (LocalTime z t), MonthFromTime (LocalTime z t), getDate z t)"

text \<open>
  A zone with daylight saving: five hours behind UTC, and four hours behind from
  9 March 2025, 07:00 UTC, to 2 November 2025, 06:00 UTC. The local times from 02:00 to 03:00
  on 9 March do not occur and are read with the offset of the winter; those from 01:00 to
  02:00 on 2 November occur twice and are read with the offset of the summer.
\<close>

definition eastern_2025 :: zone where
  "eastern_2025 =
     \<lparr>offsetAt = (\<lambda>t. if 1741503600000 \<le> t \<and> t < 1762063200000 then - 14400000
                      else - 18000000),
      offsetOfLocal = (\<lambda>l. if 1741489200000 \<le> l \<and> l < 1762048800000 then - 14400000
                           else - 18000000)\<rparr>"

text \<open>
  31 January 2025, 08:00 UTC, the same instant a day later, and a request for a coupon that
  starts then and is valid for one day.
\<close>

definition jan31 :: instant where
  "jan31 = 1738310400000"

definition feb1 :: instant where
  "feb1 = 1738396800000"

definition one_day_coupon :: coupon_req where
  "one_day_coupon = \<lparr>cr_code = ''save10'', cr_discount = Some 10, cr_description = None,
                     cr_startDate = Some jan31, cr_validityDays = Some 1, cr_status = None,
                     cr_usageLimit = None\<rparr>"

text \<open>8 March 2025, 12:00 in the zone above, and 9 March 2025, 12:00 there, 23 hours later.\<close>

definition mar8_noon :: instant where
  "mar8_noon = 1741453200000"

definition mar9_noon :: instant where
  "mar9_noon = 1741536000000"

text \<open>
  A coupon that starts on 31 January 2025, 08:00 UTC, and is valid for one day, with a given
  end date.
\<close>

definition jan31_coupon :: "instant option \<Rightarrow> coupon" where
  "jan31_coupon e =
     \<lparr>c_code = ''SAVE10'', discount = Some 10, description = None, startDate = Some jan31,
      validityDays = Some 1, endDate = e, c_status = ''active'', usageLimit = None,
      usedCount = 0\<rparr>"

text \<open>
  The forest in the words of the spec, on documents whose parent is an identifier or a
  populated document: the roots are the categories without a parent or with a parent that is
  not in the list, and the children of \<open>p\<close> are the categories whose parent is \<open>p\<close>, both in
  the order of the list.
\<close>

fun parentId :: "parent_value \<Rightarrow> oid" where
  "parentId (ParentId p) = p"
| "parentId (ParentDoc p n) = p"

definition roots_of :: "cat_doc list \<Rightarrow> oid list" where
  "roots_of cats =
     map d_id (filter (\<lambda>c. case d_parent c of None \<Rightarrow> True
                           | Some p \<Rightarrow> parentId p \<notin> d_id ` set cats) cats)"

definition children_in :: "cat_doc list \<Rightarrow> oid \<Rightarrow> oid list" where
  "children_in cats p = map d_id (filter (\<lambda>c. map_option parentId (d_parent c) = Some p) cats)"

text \<open>A category document with an identifier, a name and a parent, and its value without children.\<close>

definition doc :: "oid \<Rightarrow> string \<Rightarrow> parent_value option \<Rightarrow> cat_doc" where
  "doc i n p = \<lparr>d_id = i, d_name = n, d_parent = p, d_image = None, d_isActive = True,
               d_order = int i\<rparr>"

definition leaf :: "cat_doc \<Rightarrow> tree" where
  "leaf d = Tree d []"

text \<open>
  A store with three categories, one under the other: 1 without parent, 2 under 1, 3 under 2;
  and the query string \<^verbatim>\<open>?nested=true&parent=1&parent=2\<close> (with the identifiers of 1 and 2),
  which asks for the categories under 1 or 2, nested.
\<close>

definition family :: store where
  "family =
     \<lparr>products = [], orders = [],
      categories =
        [(1, \<lparr>c_name = ''home'', parent = None, image = None, isActive = True, c_order = 1\<rparr>),
         (2, \<lparr>c_name = ''lamps'', parent = Some 1, image = None, isActive = True, c_order = 2\<rparr>),
         (3, \<lparr>c_name = ''bulbs'', parent = Some 2, image = None, isActive = True, c_order = 3\<rparr>)],
      coupons = [], banners = [], users = [], files = [], nextId = 4\<rparr>"

definition under_1_or_2 :: category_query where
  "under_1_or_2 = \<lparr>q_parent = ManyParents [WellFormed 1, WellFormed 2], q_isActive = None,
                   q_nested = True\<rparr>"

text \<open>
  A banner that runs from instant 100 to instant 200, a store with one such banner, and an
  update request with an empty body.
\<close>

definition promo :: "string \<Rightarrow> banner" where
  "promo st = \<lparr>b_image = ''promo.png'', b_startDate = 100, b_endDate = 200,
              b_status = Some st\<rparr>"

definition banner_store :: "banner \<Rightarrow> store" where
  "banner_store b = \<lparr>products = [], orders = [], categories = [], coupons = [],
                     banners = [(1, b)], users = [], files = [''/uploads/banners/promo.png''],
                     nextId = 2\<rparr>"

definition empty_update :: banner_update where
  "empty_update = \<lparr>ub_startDate = None, ub_days = None, ub_file = None, ub_image = None,
                   ub_status = None, ub_startDate_cast = None, ub_endDate_cast = None,
                   ub_rest_ok = True\<rparr>"

text \<open>
  The status that the spec's rule gives a banner on a write at \<open>now\<close>: active for a pending
  banner once \<open>now\<close> has reached the start, expired for an active banner once \<open>now\<close> is past
  the end, and else the status as it was.
\<close>

definition status_spec :: "instant \<Rightarrow> banner \<Rightarrow> string option" where
  "status_spec now b =
     (if b_status b = Some ''pending'' \<and> b_startDate b \<le> now then Some ''active''
      else if b_status b = Some ''active'' \<and> b_endDate b < now then Some ''expired''
      else b_status b)"

text \<open>
  The status that the hook gives: active for a pending banner while \<open>now\<close> is within its
  window, expired for an active banner once \<open>now\<close> is past the end, and else the status as
  it was.
\<close>

definition status_on_save :: "instant \<Rightarrow> banner \<Rightarrow> string option" where
  "status_on_save now b =
     (if b_status b = Some ''pending'' \<and> b_startDate b \<le> now \<and> now \<le> b_endDate b
      then Some ''active''
      else if b_status b = Some ''active'' \<and> b_endDate b < now then Some ''expired''
      else b_status b)"

text \<open>A request for a banner of ten days from instant 100, with a status or without.\<close>

definition ten_days :: "json option \<Rightarrow> banner_req" where
  "ten_days st = \<lparr>br_startDate = Some (Some 100), br_days = Some (Some 10),
                  br_file = Some ''new.png'', br_status = st, br_rest_ok = True\<rparr>"

text \<open>
  A catalogue: category 1 has the child 2, category 3 has a product, category 4 has neither.
\<close>

definition catalogue :: store where
  "catalogue =
     \<lparr>products = [(10, \<lparr>stock = 1, inStock = True, p_category = Some 3\<rparr>)],
      orders = [],
      categories =
        [(1, \<lparr>c_name = ''home'', parent = None, image = Some ''/uploads/categories/a.png'',
              isActive = True, c_order = 0\<rparr>),
         (2, \<lparr>c_name = ''lamps'', parent = Some 1, image = None, isActive = True, c_order = 0\<rparr>),
         (3, \<lparr>c_name = ''garden'', parent = None, image = None, isActive = True, c_order = 0\<rparr>),
         (4, \<lparr>c_name = ''toys'', parent = None, image = Some ''/uploads/categories/t.png'',
              isActive = True, c_order = 0\<rparr>)],
      coupons = [], banners = [], users = [],
      files = [''/uploads/categories/a.png'', ''/uploads/categories/t.png''],
      nextId = 11\<rparr>"

text \<open>
  A signup request passes the checks that come before the creation of the user, other than
  those on the email: name and password are there and well-formed, a phone number that is
  given is valid, and no user with that phone number (and none without an email) exists.
\<close>

definition passes_signup_checks :: "store \<Rightarrow> signup_req \<Rightarrow> bool" where
  "passes_signup_checks s rq =
     (sr_name rq \<noteq> [] \<and> sr_password rq \<noteq> []
      \<and> (case sr_phone rq of None \<Rightarrow> True | Some ph \<Rightarrow> ph = [] \<or> isValidPhone ph)
      \<and> 2 \<le> length (trim (sr_name rq)) \<and> length (trim (sr_name rq)) \<le> 100
      \<and> isValidPassword (sr_password rq)
      \<and> existingUser s None
           (if present (sr_phone rq) then map_option trim (sr_phone rq) else None) = None)"

text \<open>A server without users, and a signup request with a given email, phone and role.\<close>

definition no_users :: store where
  "no_users = \<lparr>products = [], orders = [], categories = [], coupons = [], banners = [],
               users = [], files = [], nextId = 1\<rparr>"

definition signup_as :: "string option \<Rightarrow> string option \<Rightarrow> json option \<Rightarrow> signup_req" where
  "signup_as em ph r = \<lparr>sr_name = ''Dara'', sr_email = em, sr_password = ''secret1'',
                        sr_phone = ph, sr_role = r\<rparr>"


section \<open>Stock reconciliation: reservation\<close>

lemma findById_saveDoc:
  "findById (saveDoc coll i d) j = (if j = i then Some d else findById coll j)"
  by (simp add: findById_def saveDoc_def update_conv')

text \<open>
  In a zone without daylight saving the start of today is not after \<open>now\<close>, so that the
  delivery date of a request that names none, a week from \<open>now\<close>, is never before today.
\<close>

lemma startOfDay_le:
  assumes "startOfDay (fixed_zone tza) now = Some t"
  shows "t \<le> now"
proof -
  have "((now + tza) div msPerDay) * msPerDay \<le> now + tza"
    by (simp add: msPerDay_def)
  with assms show ?thesis
    by (simp add: startOfDay_def UTC_def MakeDate_def Day_def LocalTime_def fixed_zone_def
        TimeClip_def split: if_splits)
qed

lemma default_delivery_date_passes:
  assumes "rq_deliveryDate rq = None"
  shows "\<not> earlier (parsedDeliveryDate now rq) (startOfDay (fixed_zone tza) now)"
proof
  assume "earlier (parsedDeliveryDate now rq) (startOfDay (fixed_zone tza) now)"
  then obtain x y where x: "parsedDeliveryDate now rq = Some x"
    and y: "startOfDay (fixed_zone tza) now = Some y" and "x < y"
    by (auto simp: earlier_def split: option.splits)
  moreover from x assms have "x = now + 7 * 24 * 60 * 60 * 1000"
    by (simp add: parsedDeliveryDate_def TimeClip_def split: if_splits)
  moreover from y have "y \<le> now"
    by (rule startOfDay_le)
  ultimately show False
    by simp
qed






section \<open>Stock reconciliation: release\<close>







section \<open>Coupons: eligibility\<close>

text \<open>
  Claim C3, as the spec states it, fails: a coupon with a usage limit of 0 and a used count of
  0, active and inside its window, passes \<open>isValid\<close>, although its used count is not below
  its limit.
\<close>

theorem isValid_zero_limit_counterexample:
  "isValid 86400000 (window_coupon (Some 0) 0)
   \<and> \<not> isEligible_spec 86400000 (window_coupon (Some 0) 0)"
  by (simp add: isValid_def isEligible_spec_def window_coupon_def before_def after_def
      limitReached_def)

text \<open>
  Claim C3, amended. For a coupon with a start and an end date, \<open>isValid\<close> holds exactly
  when \<open>now\<close> is in the closed range from start to end, the status is active, and the
  usage limit is absent, or zero, or above the used count. With a limit other than zero, a
  used count equal to the limit is not eligible; a used count one below the limit is
  eligible when the other conditions hold.
\<close>

theorem isValid_iff:
  assumes "startDate c = Some st" "endDate c = Some e"
  shows "(isValid now c \<longleftrightarrow>
            st \<le> now \<and> now \<le> e \<and> c_status c = ''active''
            \<and> (usageLimit c = None \<or> usageLimit c = Some 0
               \<or> (\<exists>l. usageLimit c = Some l \<and> usedCount c < l)))
       \<and> (\<forall>l. usageLimit c = Some l \<and> l \<noteq> 0 \<and> usedCount c = l \<longrightarrow> \<not> isValid now c)
       \<and> (\<forall>l. usageLimit c = Some l \<and> usedCount c = l - 1 \<and> st \<le> now \<and> now \<le> e
              \<and> c_status c = ''active'' \<longrightarrow> isValid now c)"
  using assms
  by (auto simp: isValid_def before_def after_def limitReached_def split: option.splits)

text \<open>
  At both boundary instants the coupon is eligible, one millisecond outside it is not; at
  limit 5 a count of 4 is eligible and a count of 5 is not; without a limit, and with limit 0,
  a count of 7 is eligible.
\<close>

theorem isValid_iff_witness:
  "isValid 0 (window_coupon (Some 5) 4) \<and> isValid 86400000 (window_coupon (Some 5) 4)
   \<and> \<not> isValid 86400001 (window_coupon (Some 5) 4) \<and> \<not> isValid (- 1) (window_coupon (Some 5) 4)
   \<and> \<not> isValid 0 (window_coupon (Some 5) 5) \<and> isValid 0 (window_coupon None 7)
   \<and> isValid 0 (window_coupon (Some 0) 7)"
proof -
  have s: "startDate (window_coupon l u) = Some 0"
    and e: "endDate (window_coupon l u) = Some 86400000" for l u
    by (simp_all add: window_coupon_def)
  show ?thesis
    using isValid_iff [OF s e, of 0 "Some 5" 4] isValid_iff [OF s e, of 86400000 "Some 5" 4]
      isValid_iff [OF s e, of 86400001 "Some 5" 4] isValid_iff [OF s e, of "- 1" "Some 5" 4]
      isValid_iff [OF s e, of 0 "Some 5" 5] isValid_iff [OF s e, of 0 None 7]
      isValid_iff [OF s e, of 0 "Some 0" 7]
    by (simp add: window_coupon_def)
qed

section \<open>Coupons: a usage limit of zero\<close>

lemma limitReached_zeroLimitAsAbsent: "limitReached (zeroLimitAsAbsent c) = limitReached c"
  by (simp add: limitReached_def zeroLimitAsAbsent_def)

lemma isValid_zeroLimitAsAbsent: "isValid now (zeroLimitAsAbsent c) = isValid now c"
  unfolding isValid_def limitReached_zeroLimitAsAbsent
  by (simp add: zeroLimitAsAbsent_def)

lemma find_zeroLimitAsAbsent:
  "find (\<lambda>(i, c). c_code c = k) (map (\<lambda>(i, c). (i, zeroLimitAsAbsent c)) cs) =
     map_option (\<lambda>(i, c). (i, zeroLimitAsAbsent c)) (find (\<lambda>(i, c). c_code c = k) cs)"
  by (induction cs) (auto simp: zeroLimitAsAbsent_def)

lemma findByCode_zeroLimitsAsAbsent:
  "findByCode (zeroLimitsAsAbsent s) k =
     map_option (\<lambda>(i, c). (i, zeroLimitAsAbsent c)) (findByCode s k)"
  by (simp add: findByCode_def zeroLimitsAsAbsent_def find_zeroLimitAsAbsent)

lemma getCouponByCode_zeroLimitsAsAbsent:
  "fst (getCouponByCode now (zeroLimitsAsAbsent s) cd) = fst (getCouponByCode now s cd)"
proof (cases "findByCode s (toUpperCase cd)")
  case None
  then show ?thesis
    by (simp add: getCouponByCode_def findByCode_zeroLimitsAsAbsent)
next
  case (Some ic)
  obtain i c where ic: "ic = (i, c)" by (cases ic)
  have f: "startDate (zeroLimitAsAbsent c) = startDate c"
    "endDate (zeroLimitAsAbsent c) = endDate c"
    "c_status (zeroLimitAsAbsent c) = c_status c"
    by (simp_all add: zeroLimitAsAbsent_def)
  show ?thesis
    using Some ic
    by (simp add: getCouponByCode_def findByCode_zeroLimitsAsAbsent f
        limitReached_zeroLimitAsAbsent)
qed

lemma zero_limit_eligible:
  assumes "usageLimit c = Some 0" "\<not> before now (startDate c)" "\<not> after now (endDate c)"
    "c_status c = ''active''"
  shows "isValid now c"
    and "findByCode s (toUpperCase cd) = Some (i, c) \<Longrightarrow>
           getCouponByCode now s cd = (\<lparr>code = 200, success = True, message = NoMessage\<rparr>, s)"
  using assms by (simp_all add: isValid_def limitReached_def getCouponByCode_def)

text \<open>
  Claim C8. The eligibility check gives the same result for a coupon and for that coupon
  with a usage limit of zero taken away, and the lookup by code gives the same answer on a
  store and on that store with every usage limit of zero taken away. A coupon with usage
  limit zero that is active and inside its window is eligible, and is returned by the lookup,
  whatever its used count.
\<close>

theorem zero_limit_is_unlimited:
  "isValid now (zeroLimitAsAbsent c) = isValid now c
   \<and> fst (getCouponByCode now (zeroLimitsAsAbsent s) cd) = fst (getCouponByCode now s cd)
   \<and> (usageLimit c = Some 0 \<and> \<not> before now (startDate c) \<and> \<not> after now (endDate c)
        \<and> c_status c = ''active'' \<longrightarrow>
          isValid now c
          \<and> (\<forall>i. findByCode s (toUpperCase cd) = Some (i, c) \<longrightarrow>
                getCouponByCode now s cd =
                  (\<lparr>code = 200, success = True, message = NoMessage\<rparr>, s)))"
  using isValid_zeroLimitAsAbsent getCouponByCode_zeroLimitsAsAbsent zero_limit_eligible
  by blast

text \<open>A coupon with usage limit 0 that was used 7 times is eligible and is found by its code.\<close>

theorem zero_limit_is_unlimited_witness:
  "usageLimit (window_coupon (Some 0) 7) = Some 0
   \<and> usedCount (window_coupon (Some 0) 7) = 7
   \<and> isValid 5 (window_coupon (Some 0) 7)
   \<and> getCouponByCode 5 (coupon_store [(1, window_coupon (Some 0) 7)]) ''save10'' =
       (\<lparr>code = 200, success = True, message = NoMessage\<rparr>,
        coupon_store [(1, window_coupon (Some 0) 7)])
   \<and> fst (getCouponByCode 5 (coupon_store [(1, window_coupon None 7)]) ''save10'') =
       \<lparr>code = 200, success = True, message = NoMessage\<rparr>"
proof -
  let ?c = "window_coupon (Some 0) 7"
  let ?s = "coupon_store [(1, ?c)]"
  have h: "usageLimit ?c = Some 0 \<and> \<not> before 5 (startDate ?c) \<and> \<not> after 5 (endDate ?c)
           \<and> c_status ?c = ''active''"
    by (simp add: window_coupon_def before_def after_def)
  have f: "findByCode ?s (toUpperCase ''save10'') = Some (1, ?c)"
    by code_simp
  have z: "zeroLimitsAsAbsent ?s = coupon_store [(1, window_coupon None 7)]"
    by (simp add: zeroLimitsAsAbsent_def zeroLimitAsAbsent_def coupon_store_def window_coupon_def)
  note t = zero_limit_is_unlimited [where c = ?c and s = ?s and cd = "''save10''" and now = 5]
  from t h f have a: "isValid 5 ?c"
    and b: "getCouponByCode 5 ?s ''save10'' =
              (\<lparr>code = 200, success = True, message = NoMessage\<rparr>, ?s)"
    by blast+
  from t z b have c: "fst (getCouponByCode 5 (coupon_store [(1, window_coupon None 7)]) ''save10'') =
              \<lparr>code = 200, success = True, message = NoMessage\<rparr>"
    by simp
  from a b c show ?thesis
    by (simp add: window_coupon_def)
qed

section \<open>Coupons: the end date\<close>

text \<open>
  The year of a day, as the language standard defines it: the one year \<open>y\<close> whose first day
  is not after \<open>d\<close> while the first day of \<open>y + 1\<close> is.
\<close>

lemma div_bounds:
  fixes x k :: int
  assumes "0 < k"
  shows "k * (x div k) \<le> x" "x < k * (x div k) + k"
proof -
  have "x = k * (x div k) + x mod k"
    by simp
  moreover have "0 \<le> x mod k" "x mod k < k"
    using assms by simp_all
  ultimately show "k * (x div k) \<le> x" "x < k * (x div k) + k"
    by linarith+
qed

lemma DayFromYear_bounds:
  "400 * DayFromYear y \<le> 146097 * y - 287810497"
  "146097 * y - 287811697 \<le> 400 * DayFromYear y"
proof -
  define a where "a = (y - 1969) div 4"
  define b where "b = (y - 1901) div 100"
  define c where "c = (y - 1601) div 400"
  have a: "4 * a \<le> y - 1969" "y - 1969 < 4 * a + 4"
    unfolding a_def by (rule div_bounds, simp)+
  have b: "100 * b \<le> y - 1901" "y - 1901 < 100 * b + 100"
    unfolding b_def by (rule div_bounds, simp)+
  have c: "400 * c \<le> y - 1601" "y - 1601 < 400 * c + 400"
    unfolding c_def by (rule div_bounds, simp)+
  have d: "400 * DayFromYear y = 146000 * y - 287620000 + 400 * a - 400 * b + 400 * c"
    by (simp add: DayFromYear_def a_def b_def c_def algebra_simps)
  have a': "400 * a \<le> 100 * y - 196900" "100 * y - 196900 < 400 * a + 400"
    using a by linarith+
  have b': "400 * b \<le> 4 * y - 7604" "4 * y - 7604 < 400 * b + 400"
    using b by linarith+
  show "400 * DayFromYear y \<le> 146097 * y - 287810497"
    unfolding d using a' b' c by linarith
  show "146097 * y - 287811697 \<le> 400 * DayFromYear y"
    unfolding d using a' b' c by linarith
qed

lemma YearFromDay_spec:
  "DayFromYear (YearFromDay d) \<le> d \<and> d < DayFromYear (YearFromDay d + 1)"
proof -
  define q where "q = (400 * d) div 146097"
  have q: "146097 * q \<le> 400 * d" "400 * d < 146097 * q + 146097"
    unfolding q_def by (rule div_bounds, simp)+
  have "400 * DayFromYear (1970 + q - 1) \<le> 146097 * q - 145504"
    using DayFromYear_bounds(1) [of "1970 + q - 1"] by (simp add: algebra_simps)
  with q have "400 * DayFromYear (1970 + q - 1) \<le> 400 * d"
    by linarith
  then have lo: "DayFromYear (1970 + q - 1) \<le> d"
    by simp
  have "146097 * q + 291587 \<le> 400 * DayFromYear (1970 + q + 1 + 1)"
    using DayFromYear_bounds(2) [of "1970 + q + 1 + 1"] by (simp add: algebra_simps)
  with q have "400 * d < 400 * DayFromYear (1970 + q + 1 + 1)"
    by linarith
  then have hi: "d < DayFromYear (1970 + q + 1 + 1)"
    by simp
  from lo hi show ?thesis
    unfolding YearFromDay_def Let_def q_def [symmetric]
    by auto
qed

lemma DayFromYear_mono: "DayFromYear y < DayFromYear (y + 1)"
proof -
  define a where "a = (y - 1969) div 4"
  define a' where "a' = (y + 1 - 1969) div 4"
  define b where "b = (y - 1901) div 100"
  define b' where "b' = (y + 1 - 1901) div 100"
  define c where "c = (y - 1601) div 400"
  define c' where "c' = (y + 1 - 1601) div 400"
  have "a \<le> a'" "c \<le> c'"
    unfolding a_def a'_def c_def c'_def by (simp_all add: zdiv_mono1)
  moreover have "100 * b' \<le> y + 1 - 1901" "y - 1901 < 100 * b + 100"
    unfolding b_def b'_def by (rule div_bounds, simp)+
  then have "b' \<le> b + 1"
    by linarith
  moreover have "DayFromYear y = 365 * y - 719050 + a - b + c"
    "DayFromYear (y + 1) = 365 * y - 718685 + a' - b' + c'"
    by (simp_all add: DayFromYear_def a_def b_def c_def a'_def b'_def c'_def algebra_simps)
  ultimately show ?thesis
    by linarith
qed

lemma DayFromYear_le: "y \<le> z \<Longrightarrow> DayFromYear y \<le> DayFromYear z"
proof (induction z rule: int_ge_induct)
  case base
  show ?case by simp
next
  case (step i)
  with DayFromYear_mono [of i] show ?case by linarith
qed

lemma YearFromDay_unique:
  assumes "DayFromYear y \<le> d" "d < DayFromYear (y + 1)"
  shows "YearFromDay d = y"
proof -
  let ?Y = "YearFromDay d"
  have s: "DayFromYear ?Y \<le> d" "d < DayFromYear (?Y + 1)"
    using YearFromDay_spec by simp_all
  have "\<not> ?Y < y"
  proof
    assume "?Y < y"
    then have "DayFromYear (?Y + 1) \<le> DayFromYear y"
      by (intro DayFromYear_le) simp
    with s assms show False by linarith
  qed
  moreover have "\<not> y < ?Y"
  proof
    assume "y < ?Y"
    then have "DayFromYear (y + 1) \<le> DayFromYear ?Y"
      by (intro DayFromYear_le) simp
    with s assms show False by linarith
  qed
  ultimately show ?thesis by simp
qed

lemma MonthFromTime_range: "0 \<le> MonthFromTime t \<and> MonthFromTime t \<le> 11"
  by (simp add: MonthFromTime_def Let_def)

text \<open>
  Setting the date of \<open>t\<close> to its own date plus \<open>n\<close> lands on the day \<open>n\<close> days after the day
  of \<open>t\<close>, whatever the month and the year of \<open>t\<close> are.
\<close>

lemma MakeDay_own_date:
  "MakeDay (YearFromTime t) (MonthFromTime t) (DateFromTime t + n) = Day t + n"
proof -
  have d: "MonthFromTime t div 12 = 0" and m: "MonthFromTime t mod 12 = MonthFromTime t"
    using MonthFromTime_range [of t] by simp_all
  show ?thesis
    by (simp add: MakeDay_def Let_def d m DateFromTime_def DayWithinYear_def InLeapYear_def)
qed

lemma MakeDate_split: "MakeDate (Day t + n) (TimeWithinDay t) = t + n * msPerDay"
  by (simp add: MakeDate_def Day_def TimeWithinDay_def algebra_simps)

lemma addDays_eq: "addDays z st n = plusCalendarDays z st n"
  by (simp add: addDays_def setDate_def getDate_def Let_def MakeDay_own_date MakeDate_split
      plusCalendarDays_def)

lemma Day_shift: "Day (l + n * msPerDay) = Day l + n"
  by (simp add: Day_def msPerDay_def)

lemma TimeWithinDay_shift: "TimeWithinDay (l + n * msPerDay) = TimeWithinDay l"
  by (simp add: TimeWithinDay_def)

lemma plusCalendarDays_fixed_zone:
  "plusCalendarDays (fixed_zone tza) st d = TimeClip (st + d * msPerDay)"
  by (simp add: plusCalendarDays_def UTC_def LocalTime_def fixed_zone_def)

text \<open>
  When the zone reads the local time of the end back as the instant that it shows at, the
  local calendar at the end shows the day \<open>d\<close> days on, at the same time of day.
\<close>

lemma plusCalendarDays_local:
  assumes "plusCalendarDays z st d = Some e"
    and "offsetAt z e = offsetOfLocal z (LocalTime z st + d * msPerDay)"
  shows "LocalTime z e = LocalTime z st + d * msPerDay"
  using assms
  by (simp add: plusCalendarDays_def TimeClip_def UTC_def LocalTime_def split: if_splits)

lemma pre_save_endDate:
  assumes "startDate c = Some st" "validityDays c = Some d" "d \<noteq> 0"
  shows "endDate (coupon_pre_save z c) =
           (case plusCalendarDays z st d of None \<Rightarrow> endDate c | Some e \<Rightarrow> Some e)"
    and "startDate (coupon_pre_save z c) = startDate c"
    and "validityDays (coupon_pre_save z c) = validityDays c"
  using assms
  by (simp_all add: coupon_pre_save_def addDays_eq split: option.splits)

lemma Coupon_save_endDate:
  assumes "Coupon_save z s i c = Some s'"
  shows "\<exists>doc st d. findById (coupons s') i = Some doc
           \<and> startDate c = Some st \<and> validityDays c = Some d
           \<and> startDate doc = Some st \<and> validityDays doc = Some d
           \<and> endDate doc =
               (case plusCalendarDays z st d of None \<Rightarrow> endDate c | Some e \<Rightarrow> Some e)"
proof -
  let ?doc = "c\<lparr>c_code := toUpperCase (trim (c_code c))\<rparr>"
  from assms have v: "coupon_validate ?doc"
    and s': "s' = s\<lparr>coupons := saveDoc (coupons s) i (coupon_pre_save z ?doc)\<rparr>"
    by (auto simp: Coupon_save_def Let_def split: if_splits)
  from v obtain st d where sd: "startDate ?doc = Some st" "validityDays ?doc = Some d" "d \<noteq> 0"
    by (auto simp: coupon_validate_def split: option.splits)
  from pre_save_endDate [OF sd, of z] s' sd show ?thesis
    by (simp add: findById_saveDoc cong: option.case_cong)
qed

lemma createCoupon_endDate:
  assumes "createCoupon z now s rq = (r, s')" "success r"
  shows "\<exists>doc d e. findById (coupons s') (nextId s) = Some doc
           \<and> startDate doc = Some (case cr_startDate rq of Some x \<Rightarrow> x | None \<Rightarrow> now)
           \<and> cr_validityDays rq = Some d \<and> validityDays doc = Some d
           \<and> plusCalendarDays z (case cr_startDate rq of Some x \<Rightarrow> x | None \<Rightarrow> now) d = Some e
           \<and> endDate doc = Some e"
proof -
  let ?st = "case cr_startDate rq of Some x \<Rightarrow> x | None \<Rightarrow> now"
  from assms obtain c s1 d e where c: "Coupon_save z s (nextId s) c = Some s1"
    and s': "coupons s' = coupons s1"
    and f: "startDate c = Some ?st" "validityDays c = Some d" "cr_validityDays rq = Some d"
    and e: "addDays z ?st d = Some e"
    by (auto simp: createCoupon_def Coupon_create_def reply_def Let_def
        split: option.splits if_splits prod.splits)
  from Coupon_save_endDate [OF c] s' f e show ?thesis
    by (auto simp: addDays_eq)
qed

text \<open>
  Claim C4. In every time zone, with daylight saving or without, the end that the hook and
  \<open>createCoupon\<close> compute with \<^verbatim>\<open>setDate(getDate() + days)\<close> is the start plus that many
  calendar days, whatever the month and the year: the local date and time of the start moved
  on by that many days, read as an instant by the zone. When that instant is a date of the
  platform, it is the end date that the hook sets on a coupon with a start date and a
  validity duration, and the end date of the stored coupon after a save that succeeds. After
  every creation through \<open>createCoupon\<close> that succeeds there is such a date and it is the end
  date of the stored coupon; a request for which there is none is refused. When the local
  time that the zone read is the local time at the end (it is not when the zone skips that
  local time), the local calendar at the end shows the day the given number of days after
  the day of the start, at the same time of day; in a zone without daylight saving the end
  is the start plus that many days of 24 hours.
\<close>

theorem endDate_is_start_plus_days:
  "addDays z st d = plusCalendarDays z st d
   \<and> (startDate c = Some st \<and> validityDays c = Some d \<and> d \<noteq> 0
        \<and> plusCalendarDays z st d = Some e \<longrightarrow>
      endDate (coupon_pre_save z c) = Some e)
   \<and> (Coupon_save z s i c = Some s' \<and> startDate c = Some st \<and> validityDays c = Some d
        \<and> plusCalendarDays z st d = Some e \<longrightarrow>
        (\<exists>doc. findById (coupons s') i = Some doc \<and> startDate doc = Some st
           \<and> validityDays doc = Some d \<and> endDate doc = Some e))
   \<and> (createCoupon z now s rq = (r, s'') \<and> success r \<longrightarrow>
        (\<exists>doc n end.
           findById (coupons s'') (nextId s) = Some doc
           \<and> startDate doc = Some (case cr_startDate rq of Some x \<Rightarrow> x | None \<Rightarrow> now)
           \<and> cr_validityDays rq = Some n \<and> validityDays doc = Some n
           \<and> plusCalendarDays z (case cr_startDate rq of Some x \<Rightarrow> x | None \<Rightarrow> now) n = Some end
           \<and> endDate doc = Some end))
   \<and> (plusCalendarDays z st d = Some e
        \<and> offsetAt z e = offsetOfLocal z (LocalTime z st + d * msPerDay) \<longrightarrow>
        Day (LocalTime z e) = Day (LocalTime z st) + d
        \<and> TimeWithinDay (LocalTime z e) = TimeWithinDay (LocalTime z st))
   \<and> plusCalendarDays (fixed_zone tza) st d = TimeClip (st + d * msPerDay)"
proof (intro conjI impI)
  show "addDays z st d = plusCalendarDays z st d"
    by (rule addDays_eq)
next
  assume "startDate c = Some st \<and> validityDays c = Some d \<and> d \<noteq> 0
          \<and> plusCalendarDays z st d = Some e"
  then show "endDate (coupon_pre_save z c) = Some e"
    using pre_save_endDate(1) [of c st d z] by simp
next
  assume a: "Coupon_save z s i c = Some s' \<and> startDate c = Some st \<and> validityDays c = Some d
             \<and> plusCalendarDays z st d = Some e"
  with Coupon_save_endDate [of z s i c s']
  show "\<exists>doc. findById (coupons s') i = Some doc \<and> startDate doc = Some st
           \<and> validityDays doc = Some d \<and> endDate doc = Some e"
    by auto
next
  assume "createCoupon z now s rq = (r, s'') \<and> success r"
  then show "\<exists>doc n end.
           findById (coupons s'') (nextId s) = Some doc
           \<and> startDate doc = Some (case cr_startDate rq of Some x \<Rightarrow> x | None \<Rightarrow> now)
           \<and> cr_validityDays rq = Some n \<and> validityDays doc = Some n
           \<and> plusCalendarDays z (case cr_startDate rq of Some x \<Rightarrow> x | None \<Rightarrow> now) n = Some end
           \<and> endDate doc = Some end"
    using createCoupon_endDate by blast
next
  assume a: "plusCalendarDays z st d = Some e
             \<and> offsetAt z e = offsetOfLocal z (LocalTime z st + d * msPerDay)"
  then have l: "LocalTime z e = LocalTime z st + d * msPerDay"
    using plusCalendarDays_local by blast
  show "Day (LocalTime z e) = Day (LocalTime z st) + d"
    by (simp only: l Day_shift)
  show "TimeWithinDay (LocalTime z e) = TimeWithinDay (LocalTime z st)"
    by (simp only: l TimeWithinDay_shift)
next
  show "plusCalendarDays (fixed_zone tza) st d = TimeClip (st + d * msPerDay)"
    by (rule plusCalendarDays_fixed_zone)
qed

text \<open>
  The spec's example: a coupon that starts on 31 January and is valid for one day ends on
  1 February; the same holds for the stored coupon after a save and after a creation. And
  across the start of daylight saving: a coupon that starts on 8 March 2025 at noon of the
  zone and is valid for one day ends on 9 March at noon of the zone, which is 23 hours
  later.
\<close>

theorem endDate_is_start_plus_days_witness:
  "calendar (fixed_zone 0) jan31 = (2025, 0, 31) \<and> calendar (fixed_zone 0) feb1 = (2025, 1, 1)
   \<and> addDays (fixed_zone 0) jan31 1 = Some feb1
   \<and> endDate (coupon_pre_save (fixed_zone 0) (jan31_coupon None)) = Some feb1
   \<and> Coupon_save (fixed_zone 0) (coupon_store []) 1 (jan31_coupon None) =
        Some ((coupon_store [])\<lparr>coupons := [(1, jan31_coupon (Some feb1))]\<rparr>)
   \<and> createCoupon (fixed_zone 0) 5 (coupon_store []) one_day_coupon =
        (reply 201 True ''Coupon created successfully'',
         coupon_store [(1, jan31_coupon (Some feb1))])
   \<and> calendar eastern_2025 mar8_noon = (2025, 2, 8)
   \<and> calendar eastern_2025 mar9_noon = (2025, 2, 9)
   \<and> addDays eastern_2025 mar8_noon 1 = Some mar9_noon
   \<and> mar9_noon = mar8_noon + 23 * 3600000
   \<and> endDate (coupon_pre_save eastern_2025 ((jan31_coupon None)\<lparr>startDate := Some mar8_noon\<rparr>))
        = Some mar9_noon
   \<and> Day (LocalTime eastern_2025 mar9_noon) = Day (LocalTime eastern_2025 mar8_noon) + 1
   \<and> TimeWithinDay (LocalTime eastern_2025 mar9_noon) = 12 * 3600000
   \<and> TimeWithinDay (LocalTime eastern_2025 mar8_noon) = 12 * 3600000"
proof -
  let ?s1 = "(coupon_store [])\<lparr>coupons := [(1, jan31_coupon (Some feb1))]\<rparr>"
  let ?s2 = "coupon_store [(1, jan31_coupon (Some feb1))]"
  let ?r = "reply 201 True ''Coupon created successfully''"
  let ?c = "(jan31_coupon None)\<lparr>startDate := Some mar8_noon\<rparr>"
  have cal: "calendar (fixed_zone 0) jan31 = (2025, 0, 31)"
    "calendar (fixed_zone 0) feb1 = (2025, 1, 1)"
    "calendar eastern_2025 mar8_noon = (2025, 2, 8)"
    "calendar eastern_2025 mar9_noon = (2025, 2, 9)"
    by code_simp+
  have pl: "plusCalendarDays (fixed_zone 0) jan31 1 = Some feb1"
    "plusCalendarDays eastern_2025 mar8_noon 1 = Some mar9_noon"
    by code_simp+
  have off: "offsetAt eastern_2025 mar9_noon =
               offsetOfLocal eastern_2025 (LocalTime eastern_2025 mar8_noon + 1 * msPerDay)"
    by code_simp
  have hours: "mar9_noon = mar8_noon + 23 * 3600000"
    "TimeWithinDay (LocalTime eastern_2025 mar8_noon) = 12 * 3600000"
    by code_simp+
  have sv: "Coupon_save (fixed_zone 0) (coupon_store []) 1 (jan31_coupon None) = Some ?s1"
    by code_simp
  have cr: "createCoupon (fixed_zone 0) 5 (coupon_store []) one_day_coupon = (?r, ?s2)"
    by code_simp
  have h1: "startDate (jan31_coupon None) = Some jan31"
    "validityDays (jan31_coupon None) = Some 1"
    "startDate ?c = Some mar8_noon" "validityDays ?c = Some 1"
    by (simp_all add: jan31_coupon_def)
  have h2: "success ?r"
    by (simp add: reply_def)
  note t1 = endDate_is_start_plus_days [where z = "fixed_zone 0" and st = jan31 and d = 1
      and c = "jan31_coupon None" and e = feb1 and s = "coupon_store []" and i = 1
      and s' = ?s1 and now = 5 and rq = one_day_coupon and r = ?r and s'' = ?s2 and tza = 0]
  note t2 = endDate_is_start_plus_days [where z = eastern_2025 and st = mar8_noon and d = 1
      and c = ?c and e = mar9_noon]
  from t1 pl(1) have a1: "addDays (fixed_zone 0) jan31 1 = Some feb1"
    by simp
  from t1 pl(1) h1 have e1: "endDate (coupon_pre_save (fixed_zone 0) (jan31_coupon None)) = Some feb1"
    by simp
  from t1 have "Coupon_save (fixed_zone 0) (coupon_store []) 1 (jan31_coupon None) = Some ?s1
        \<and> startDate (jan31_coupon None) = Some jan31
        \<and> validityDays (jan31_coupon None) = Some 1
        \<and> plusCalendarDays (fixed_zone 0) jan31 1 = Some feb1 \<longrightarrow>
      (\<exists>doc. findById (coupons ?s1) 1 = Some doc \<and> startDate doc = Some jan31
         \<and> validityDays doc = Some 1 \<and> endDate doc = Some feb1)"
    by blast
  with sv pl(1) h1 have saved: "\<exists>doc. findById (coupons ?s1) 1 = Some doc
       \<and> startDate doc = Some jan31 \<and> validityDays doc = Some 1 \<and> endDate doc = Some feb1"
    by blast
  from t1 cr h2 have created: "\<exists>doc n end.
       findById (coupons ?s2) (nextId (coupon_store [])) = Some doc \<and> endDate doc = Some end"
    by blast
  from t2 pl(2) have a2: "addDays eastern_2025 mar8_noon 1 = Some mar9_noon"
    by simp
  from t2 pl(2) h1 have e2: "endDate (coupon_pre_save eastern_2025 ?c) = Some mar9_noon"
    by simp
  from t2 pl(2) off
  have l2: "Day (LocalTime eastern_2025 mar9_noon) = Day (LocalTime eastern_2025 mar8_noon) + 1"
    "TimeWithinDay (LocalTime eastern_2025 mar9_noon) =
       TimeWithinDay (LocalTime eastern_2025 mar8_noon)"
    by simp_all
  from cal a1 e1 sv cr a2 e2 l2 hours saved created show ?thesis
    by simp
qed

section \<open>The category tree\<close>

text \<open>
  The first pass enters the documents under the texts of their identifiers and under no other
  key.
\<close>

lemma firstPass_other:
  "k \<notin> idText ` set cats \<Longrightarrow> map_of (firstPass cats m) k = map_of m k"
  by (induction cats arbitrary: m) (auto simp: update_conv')

lemma firstPass_lookup:
  assumes "distinct (map d_id cats)" "c \<in> set cats"
  shows "map_of (firstPass cats m) (idText c) = Some \<lparr>n_doc = c, children = []\<rparr>"
  using assms
proof (induction cats arbitrary: m)
  case Nil
  then show ?case by simp
next
  case (Cons a rest)
  show ?case
  proof (cases "c \<in> set rest")
    case True
    with Cons show ?thesis by simp
  next
    case False
    with Cons.prems have c: "c = a" and "d_id a \<notin> d_id ` set rest"
      by auto
    then have "idText a \<notin> idText ` set rest"
      by (auto simp: idText_def)
    then show ?thesis
      by (simp add: c firstPass_other update_conv')
  qed
qed

text \<open>
  On documents with populated parents the second pass finds no parent in the map and pushes
  every document to the roots.
\<close>

lemma secondPass_populated:
  assumes "\<forall>c \<in> set cats. \<forall>p. d_parent c \<noteq> Some (ParentId p)"
    and "\<forall>p n. map_of categoryMap (DocText p n) = None"
  shows "secondPass cats categoryMap roots = (roots @ map idText cats, categoryMap)"
  using assms
proof (induction cats arbitrary: roots)
  case Nil
  then show ?case by simp
next
  case (Cons a rest)
  show ?case
  proof (cases "d_parent a")
    case None
    with Cons show ?thesis by simp
  next
    case (Some pv)
    with Cons.prems(1) obtain p n where "pv = ParentDoc p n"
      by (cases pv) auto
    with Some Cons show ?thesis by simp
  qed
qed

lemma those_map_Some:
  "(\<And>x. x \<in> set xs \<Longrightarrow> f x = Some (g x)) \<Longrightarrow> those (map f xs) = Some (map g xs)"
  by (induction xs) simp_all

lemma buildCategoryTree_populated:
  assumes p: "\<forall>c \<in> set cats. \<forall>p. d_parent c \<noteq> Some (ParentId p)"
    and d: "distinct (map d_id cats)"
  shows "buildCategoryTree cats = Some (map leaf cats)"
proof -
  let ?m = "firstPass cats []"
  have "\<forall>p n. map_of ?m (DocText p n) = None"
    by (simp add: firstPass_other idText_def image_iff)
  with p have s: "secondPass cats ?m [] = (map idText cats, ?m)"
    using secondPass_populated [of cats ?m "[]"] by simp
  have "readTree (Suc n) ?m (idText c) = Some (leaf c)" if "c \<in> set cats" for c n
    using firstPass_lookup [OF d that, of "[]"] by (simp add: leaf_def)
  then have "those (map (readTree (Suc n) ?m) (map idText cats)) = Some (map leaf cats)" for n
    using those_map_Some [of cats "\<lambda>c. readTree (Suc n) ?m (idText c)" leaf]
    by (simp add: comp_def)
  with s show ?thesis
    by (simp add: buildCategoryTree_def)
qed

text \<open>The list that \<open>getAllCategories\<close> passes to the builder.\<close>

lemma insertSorted_set: "set (insertSorted x ys) = insert x (set ys)"
  by (induction ys) auto

lemma insertSorted_distinct:
  "distinct (map fst (insertSorted x ys)) \<longleftrightarrow> fst x \<notin> fst ` set ys \<and> distinct (map fst ys)"
  by (induction ys) (auto simp: insertSorted_set)

lemma sortByOrderAndName_distinct:
  "distinct (map fst xs) \<Longrightarrow>
     distinct (map fst (sortByOrderAndName xs)) \<and> set (sortByOrderAndName xs) = set xs"
  unfolding sortByOrderAndName_def
  by (induction xs) (auto simp: insertSorted_set insertSorted_distinct)

lemma populate_fields:
  "d_id (populate s ic) = fst ic" "d_parent (populate s ic) \<noteq> Some (ParentId p)"
  by (auto simp: populate_def split: prod.splits option.splits)

lemma listed_populated:
  assumes "distinct (map fst (categories s))"
  shows "buildCategoryTree (map (populate s) (sortByOrderAndName (filter P (categories s)))) =
           Some (map leaf (map (populate s) (sortByOrderAndName (filter P (categories s)))))"
proof -
  let ?found = "filter P (categories s)"
  from assms have "distinct (map fst ?found)"
    by (rule distinct_map_filter)
  then have "distinct (map fst (sortByOrderAndName ?found))"
    using sortByOrderAndName_distinct by blast
  then have "distinct (map d_id (map (populate s) (sortByOrderAndName ?found)))"
    by (simp add: comp_def populate_fields)
  then show ?thesis
    by (intro buildCategoryTree_populated) (auto simp: populate_fields)
qed

text \<open>
  \<open>buildCategoryTree\<close> is called by \<open>getAllCategories\<close> alone, on documents whose parents are
  populated: the text under which it looks a parent up is that of a document and never a key
  of its map. So whatever the categories in the store and whatever the query, the nested
  answer is the flat answer with an empty children array on each element: every category
  that is found is a root, also one whose parent is in the list.
\<close>

lemma getAllCategories_nested_all_roots:
  assumes "distinct (map fst (categories s))" and "q_nested q"
  shows "(case getAllCategories s (q\<lparr>q_nested := False\<rparr>) of
            (r, Some (Flat listed)) \<Rightarrow> getAllCategories s q = (r, Some (Nested (map leaf listed)))
          | (r, _) \<Rightarrow> getAllCategories s q = (r, None))"
  using assms
  by (simp add: getAllCategories_def Let_def listed_populated split: option.splits)

text \<open>
  Claim C5 fails of the code. On the example of the spec, with identifiers for parents, the
  builder gives the roots 1 and 3 and the child 2 under 1, as the claim says. But the only
  caller passes documents with populated parents. On the store with 1, 2 under 1 and 3 under
  2, asked for the categories under 1 or 2, nested: the list is 2 and 3, and the parent of 3
  is 2, so that by the claim 2 is the only root and 3 is its child; the answer has both 2
  and 3 as roots without children.
\<close>

theorem getAllCategories_nested_roots_only:
  "buildCategoryTree [doc 1 ''home'' None, doc 2 ''lamps'' (Some (ParentId 1)),
                      doc 3 ''garden'' (Some (ParentId 99))] =
     Some [Tree (doc 1 ''home'' None) [leaf (doc 2 ''lamps'' (Some (ParentId 1)))],
           leaf (doc 3 ''garden'' (Some (ParentId 99)))]
   \<and> getAllCategories family (under_1_or_2\<lparr>q_nested := False\<rparr>) =
       (\<lparr>code = 200, success = True, message = NoMessage\<rparr>,
        Some (Flat [doc 2 ''lamps'' (Some (ParentDoc 1 ''home'')),
                    doc 3 ''bulbs'' (Some (ParentDoc 2 ''lamps''))]))
   \<and> roots_of [doc 2 ''lamps'' (Some (ParentDoc 1 ''home'')),
                doc 3 ''bulbs'' (Some (ParentDoc 2 ''lamps''))] = [2]
   \<and> children_in [doc 2 ''lamps'' (Some (ParentDoc 1 ''home'')),
                   doc 3 ''bulbs'' (Some (ParentDoc 2 ''lamps''))] 2 = [3]
   \<and> getAllCategories family under_1_or_2 =
       (\<lparr>code = 200, success = True, message = NoMessage\<rparr>,
        Some (Nested [Tree (doc 2 ''lamps'' (Some (ParentDoc 1 ''home''))) [],
                      Tree (doc 3 ''bulbs'' (Some (ParentDoc 2 ''lamps''))) []]))"
proof -
  let ?listed = "[doc 2 ''lamps'' (Some (ParentDoc 1 ''home'')),
                  doc 3 ''bulbs'' (Some (ParentDoc 2 ''lamps''))]"
  let ?ok = "\<lparr>code = 200, success = True, message = NoMessage\<rparr>"
  have ex: "buildCategoryTree [doc 1 ''home'' None, doc 2 ''lamps'' (Some (ParentId 1)),
                               doc 3 ''garden'' (Some (ParentId 99))] =
     Some [Tree (doc 1 ''home'' None) [leaf (doc 2 ''lamps'' (Some (ParentId 1)))],
           leaf (doc 3 ''garden'' (Some (ParentId 99)))]"
    by code_simp
  have flat: "getAllCategories family (under_1_or_2\<lparr>q_nested := False\<rparr>) =
                (?ok, Some (Flat ?listed))"
    by code_simp
  have spec: "roots_of ?listed = [2]" "children_in ?listed 2 = [3]"
    by code_simp+
  have nested: "getAllCategories family under_1_or_2 =
       (?ok, Some (Nested [Tree (doc 2 ''lamps'' (Some (ParentDoc 1 ''home''))) [],
                           Tree (doc 3 ''bulbs'' (Some (ParentDoc 2 ''lamps''))) []]))"
    by code_simp
  from ex flat spec nested show ?thesis
    by simp
qed

section \<open>The status of a banner on a write\<close>

lemma banner_pre_save_eq: "banner_pre_save now b = b\<lparr>b_status := status_on_save now b\<rparr>"
  by (simp add: banner_pre_save_def status_on_save_def Let_def)

lemma createBanner_banners:
  assumes "createBanner z now s rq = (r, s')"
  shows "(code r = 201 \<longrightarrow>
            (\<exists>b. banners s' = banners s @ [(nextId s, banner_pre_save now b)]
               \<and> castStatus (case br_status rq of None \<Rightarrow> JStr ''pending''
                              | Some v \<Rightarrow> if truthyJ v then v else JStr ''pending'')
                   = Some (b_status b)))
         \<and> (code r \<noteq> 201 \<longrightarrow> banners s' = banners s)"
  using assms
  by (auto simp: createBanner_def Banner_create_def reply_def Let_def
      split: option.splits if_splits prod.splits)

lemma updateBanner_banners:
  assumes "updateBanner z s (WellFormed i) rq = (r, s')" "findById (banners s) i = Some b"
  shows "(code r = 200 \<longrightarrow>
            (\<exists>b'. findById (banners s') i = Some b'
               \<and> (case ub_status rq of None \<Rightarrow> b_status b' = b_status b
                   | Some v \<Rightarrow> castStatus v = Some (b_status b'))))
         \<and> (code r \<noteq> 200 \<longrightarrow> banners s' = banners s)"
  using assms
  by (auto simp: updateBanner_def reply_def Let_def findById_saveDoc
      split: option.splits if_splits prod.splits)

text \<open>
  Claim C6, as the spec states it, fails, and in two ways. The hook that re-evaluates the
  status leaves a pending banner pending when it is saved after its end date, although
  \<open>now\<close> has reached its start date. And the hook does not run on every write:
  \<open>updateBanner\<close> writes with \<^verbatim>\<open>findByIdAndUpdate\<close>, so that an update of a pending banner
  within its window leaves it pending, and an update of an active banner after its end
  leaves it active.
\<close>

theorem banner_status_not_reevaluated_counterexample:
  "b_status (promo ''pending'') = Some ''pending'' \<and> b_startDate (promo ''pending'') \<le> 300
   \<and> status_spec 300 (promo ''pending'') = Some ''active''
   \<and> b_status (banner_pre_save 300 (promo ''pending'')) = Some ''pending''
   \<and> status_spec 150 (promo ''pending'') = Some ''active''
   \<and> updateBanner (fixed_zone 0) (banner_store (promo ''pending'')) (WellFormed 1) empty_update =
       (reply 200 True ''Banner updated successfully'', banner_store (promo ''pending''))
   \<and> status_spec 300 (promo ''active'') = Some ''expired''
   \<and> updateBanner (fixed_zone 0) (banner_store (promo ''active'')) (WellFormed 1) empty_update =
       (reply 200 True ''Banner updated successfully'', banner_store (promo ''active''))"
  by code_simp

text \<open>
  Claim C6, amended. The status is re-evaluated by the \<^verbatim>\<open>pre('save')\<close> hook alone, which
  runs when \<open>createBanner\<close> creates a banner and does not run when \<open>updateBanner\<close> updates
  one. On a save the hook turns a pending banner active when \<open>now\<close> is in the closed range
  from its start date to its end date, and leaves it pending before the start date and after
  the end date; it turns an active banner expired when \<open>now\<close> is after its end date; it
  leaves every other banner, an inactive one among them, as it is; and it changes nothing
  but the status. A banner that \<open>createBanner\<close> stores is the result of the hook on a banner
  with the status of the request, or pending when the request names none. An update never
  looks at the clock or the dates: when it succeeds, the stored status is the one that the
  request names, or the status as it was when the request names none; when it fails, the
  banners are as they were.
\<close>

theorem banner_status_on_write:
  "banner_pre_save now b = b\<lparr>b_status := status_on_save now b\<rparr>
   \<and> (b_status b = Some ''pending'' \<and> b_startDate b \<le> now \<and> now \<le> b_endDate b \<longrightarrow>
        b_status (banner_pre_save now b) = Some ''active'')
   \<and> (b_status b = Some ''pending'' \<and> (now < b_startDate b \<or> b_endDate b < now) \<longrightarrow>
        banner_pre_save now b = b)
   \<and> (b_status b = Some ''active'' \<and> b_endDate b < now \<longrightarrow>
        b_status (banner_pre_save now b) = Some ''expired'')
   \<and> (b_status b = Some ''active'' \<and> now \<le> b_endDate b \<longrightarrow> banner_pre_save now b = b)
   \<and> (b_status b \<noteq> Some ''pending'' \<and> b_status b \<noteq> Some ''active'' \<longrightarrow>
        banner_pre_save now b = b)
   \<and> (createBanner z now s rq = (r, s') \<longrightarrow>
        (code r = 201 \<longrightarrow>
           (\<exists>nb. banners s' = banners s @ [(nextId s, nb\<lparr>b_status := status_on_save now nb\<rparr>)]
              \<and> castStatus (case br_status rq of None \<Rightarrow> JStr ''pending''
                             | Some v \<Rightarrow> if truthyJ v then v else JStr ''pending'')
                  = Some (b_status nb)))
        \<and> (code r \<noteq> 201 \<longrightarrow> banners s' = banners s))
   \<and> (updateBanner z s (WellFormed i) up = (r', s'') \<and> findById (banners s) i = Some ob \<longrightarrow>
        (code r' = 200 \<longrightarrow>
           (\<exists>b'. findById (banners s'') i = Some b'
              \<and> (case ub_status up of None \<Rightarrow> b_status b' = b_status ob
                  | Some v \<Rightarrow> castStatus v = Some (b_status b'))))
        \<and> (code r' \<noteq> 200 \<longrightarrow> banners s'' = banners s))"
proof -
  have hook: "banner_pre_save now b = b\<lparr>b_status := status_on_save now b\<rparr>"
    by (rule banner_pre_save_eq)
  have cases:
    "b_status b = Some ''pending'' \<and> b_startDate b \<le> now \<and> now \<le> b_endDate b \<longrightarrow>
       b_status (banner_pre_save now b) = Some ''active''"
    "b_status b = Some ''pending'' \<and> (now < b_startDate b \<or> b_endDate b < now) \<longrightarrow>
       banner_pre_save now b = b"
    "b_status b = Some ''active'' \<and> b_endDate b < now \<longrightarrow>
       b_status (banner_pre_save now b) = Some ''expired''"
    "b_status b = Some ''active'' \<and> now \<le> b_endDate b \<longrightarrow> banner_pre_save now b = b"
    "b_status b \<noteq> Some ''pending'' \<and> b_status b \<noteq> Some ''active'' \<longrightarrow>
       banner_pre_save now b = b"
    by (auto simp: banner_pre_save_def Let_def)
  have create: "createBanner z now s rq = (r, s') \<longrightarrow>
        (code r = 201 \<longrightarrow>
           (\<exists>nb. banners s' = banners s @ [(nextId s, nb\<lparr>b_status := status_on_save now nb\<rparr>)]
              \<and> castStatus (case br_status rq of None \<Rightarrow> JStr ''pending''
                             | Some v \<Rightarrow> if truthyJ v then v else JStr ''pending'')
                  = Some (b_status nb)))
        \<and> (code r \<noteq> 201 \<longrightarrow> banners s' = banners s)"
    using createBanner_banners [of z now s rq r s']
    by (simp only: banner_pre_save_eq) blast
  have update: "updateBanner z s (WellFormed i) up = (r', s'') \<and> findById (banners s) i = Some ob \<longrightarrow>
        (code r' = 200 \<longrightarrow>
           (\<exists>b'. findById (banners s'') i = Some b'
              \<and> (case ub_status up of None \<Rightarrow> b_status b' = b_status ob
                  | Some v \<Rightarrow> castStatus v = Some (b_status b'))))
        \<and> (code r' \<noteq> 200 \<longrightarrow> banners s'' = banners s)"
    using updateBanner_banners [of z s i up r' s'' ob] by blast
  from hook cases create update show ?thesis
    by (intro conjI)
qed

text \<open>
  A banner that runs from 100 to 200, saved at both ends of its window, before and after; a
  banner created within its window and one created for a later window; and updates of a
  pending banner with and without a status.
\<close>

theorem banner_status_on_write_witness:
  "b_status (banner_pre_save 100 (promo ''pending'')) = Some ''active''
   \<and> b_status (banner_pre_save 200 (promo ''pending'')) = Some ''active''
   \<and> banner_pre_save 99 (promo ''pending'') = promo ''pending''
   \<and> banner_pre_save 201 (promo ''pending'') = promo ''pending''
   \<and> b_status (banner_pre_save 201 (promo ''active'')) = Some ''expired''
   \<and> banner_pre_save 200 (promo ''active'') = promo ''active''
   \<and> banner_pre_save 150 (promo ''inactive'') = promo ''inactive''
   \<and> banner_pre_save 300 (promo ''inactive'') = promo ''inactive''
   \<and> createBanner (fixed_zone 0) 150 (banner_store (promo ''pending'')) (ten_days None) =
       (reply 201 True ''Banner created successfully'',
        (banner_store (promo ''pending''))
          \<lparr>banners := [(1, promo ''pending''),
                       (2, \<lparr>b_image = ''new.png'', b_startDate = 100, b_endDate = 864000100,
                            b_status = Some ''active''\<rparr>)],
           nextId := 3\<rparr>)
   \<and> map (b_status \<circ> snd) (banners (snd (createBanner (fixed_zone 0) 50
           (banner_store (promo ''pending'')) (ten_days (Some (JStr ''inactive''))))))
       = [Some ''pending'', Some ''inactive'']
   \<and> map_option b_status (findById (banners (snd (updateBanner (fixed_zone 0)
           (banner_store (promo ''pending'')) (WellFormed 1) empty_update))) 1)
       = Some (Some ''pending'')
   \<and> map_option b_status (findById (banners (snd (updateBanner (fixed_zone 0)
           (banner_store (promo ''pending'')) (WellFormed 1)
           (empty_update\<lparr>ub_status := Some (JStr ''expired'')\<rparr>)))) 1)
       = Some (Some ''expired'')
   \<and> updateBanner (fixed_zone 0) (banner_store (promo ''pending'')) (WellFormed 1)
        (empty_update\<lparr>ub_status := Some (JStr ''live'')\<rparr>) =
       (reply 400 False ''Failed to update banner'', banner_store (promo ''pending''))"
proof -
  let ?s = "banner_store (promo ''pending'')"
  let ?z = "fixed_zone 0"
  have st: "b_status (promo x) = Some x" "b_startDate (promo x) = 100" "b_endDate (promo x) = 200"
    for x
    by (simp_all add: promo_def)
  note t = banner_status_on_write
  note in_window = t [THEN conjunct2, THEN conjunct1]
  note off_window = t [THEN conjunct2, THEN conjunct2, THEN conjunct1]
  note past_end = t [THEN conjunct2, THEN conjunct2, THEN conjunct2, THEN conjunct1]
  note until_end = t [THEN conjunct2, THEN conjunct2, THEN conjunct2, THEN conjunct2,
      THEN conjunct1]
  note other = t [THEN conjunct2, THEN conjunct2, THEN conjunct2, THEN conjunct2,
      THEN conjunct2, THEN conjunct1]
  from in_window [of "promo ''pending''" 100]
  have a: "b_status (banner_pre_save 100 (promo ''pending'')) = Some ''active''"
    by (simp add: st)
  from in_window [of "promo ''pending''" 200]
  have b: "b_status (banner_pre_save 200 (promo ''pending'')) = Some ''active''"
    by (simp add: st)
  from off_window [of "promo ''pending''" 99]
  have c: "banner_pre_save 99 (promo ''pending'') = promo ''pending''"
    by (simp add: st)
  from off_window [of "promo ''pending''" 201]
  have c': "banner_pre_save 201 (promo ''pending'') = promo ''pending''"
    by (simp add: st)
  from past_end [of "promo ''active''" 201]
  have d: "b_status (banner_pre_save 201 (promo ''active'')) = Some ''expired''"
    by (simp add: st)
  from until_end [of "promo ''active''" 200]
  have e: "banner_pre_save 200 (promo ''active'') = promo ''active''"
    by (simp add: st)
  from other [of "promo ''inactive''" 150]
  have f: "banner_pre_save 150 (promo ''inactive'') = promo ''inactive''"
    by (simp add: st)
  from other [of "promo ''inactive''" 300]
  have g: "banner_pre_save 300 (promo ''inactive'') = promo ''inactive''"
    by (simp add: st)
  have cr1: "createBanner ?z 150 ?s (ten_days None) =
       (reply 201 True ''Banner created successfully'',
        ?s\<lparr>banners := [(1, promo ''pending''),
                       (2, \<lparr>b_image = ''new.png'', b_startDate = 100, b_endDate = 864000100,
                            b_status = Some ''active''\<rparr>)],
           nextId := 3\<rparr>)"
    by code_simp
  have cr2: "map (b_status \<circ> snd) (banners (snd (createBanner ?z 50 ?s
                (ten_days (Some (JStr ''inactive''))))))
       = [Some ''pending'', Some ''inactive'']"
    by code_simp
  let ?created = "?s\<lparr>banners := [(1, promo ''pending''),
                       (2, \<lparr>b_image = ''new.png'', b_startDate = 100, b_endDate = 864000100,
                            b_status = Some ''active''\<rparr>)],
                    nextId := 3\<rparr>"
  have r201: "code (reply 201 True ''Banner created successfully'') = 201"
    "br_status (ten_days None) = None"
    by (simp_all add: reply_def ten_days_def)
  from t [where z = ?z and now = 150 and s = ?s and rq = "ten_days None"
      and r = "reply 201 True ''Banner created successfully''" and s' = ?created,
      THEN conjunct2, THEN conjunct2, THEN conjunct2, THEN conjunct2, THEN conjunct2,
      THEN conjunct2, THEN conjunct1] cr1 r201
  have created: "\<exists>nb. banners ?created =
                   banners ?s @ [(nextId ?s, nb\<lparr>b_status := status_on_save 150 nb\<rparr>)]
                 \<and> castStatus (JStr ''pending'') = Some (b_status nb)"
    by simp
  have f1: "findById (banners ?s) 1 = Some (promo ''pending'')"
    by code_simp
  have u1: "code (fst (updateBanner ?z ?s (WellFormed 1) empty_update)) = 200"
    "code (fst (updateBanner ?z ?s (WellFormed 1)
        (empty_update\<lparr>ub_status := Some (JStr ''expired'')\<rparr>))) = 200"
    "code (fst (updateBanner ?z ?s (WellFormed 1)
        (empty_update\<lparr>ub_status := Some (JStr ''live'')\<rparr>))) = 400"
    "fst (updateBanner ?z ?s (WellFormed 1) (empty_update\<lparr>ub_status := Some (JStr ''live'')\<rparr>))
       = reply 400 False ''Failed to update banner''"
    "files (snd (updateBanner ?z ?s (WellFormed 1)
        (empty_update\<lparr>ub_status := Some (JStr ''live'')\<rparr>))) = files ?s"
    "castStatus (JStr ''expired'') = Some (Some ''expired'')"
    "ub_status empty_update = None"
    by code_simp+
  have same: "snd (updateBanner ?z ?s (WellFormed 1)
        (empty_update\<lparr>ub_status := Some (JStr ''live'')\<rparr>)) = ?s"
    by code_simp
  from t [where z = ?z and s = ?s and i = 1 and up = empty_update
      and ob = "promo ''pending''"
      and r' = "fst (updateBanner ?z ?s (WellFormed 1) empty_update)"
      and s'' = "snd (updateBanner ?z ?s (WellFormed 1) empty_update)",
      THEN conjunct2, THEN conjunct2, THEN conjunct2, THEN conjunct2, THEN conjunct2,
      THEN conjunct2, THEN conjunct2] f1 u1
  have up1: "map_option b_status (findById (banners (snd (updateBanner ?z ?s (WellFormed 1)
               empty_update))) 1) = Some (Some ''pending'')"
    by (auto simp: st)
  from t [where z = ?z and s = ?s and i = 1
      and up = "empty_update\<lparr>ub_status := Some (JStr ''expired'')\<rparr>" and ob = "promo ''pending''"
      and r' = "fst (updateBanner ?z ?s (WellFormed 1)
                  (empty_update\<lparr>ub_status := Some (JStr ''expired'')\<rparr>))"
      and s'' = "snd (updateBanner ?z ?s (WellFormed 1)
                  (empty_update\<lparr>ub_status := Some (JStr ''expired'')\<rparr>))",
      THEN conjunct2, THEN conjunct2, THEN conjunct2, THEN conjunct2, THEN conjunct2,
      THEN conjunct2, THEN conjunct2] f1 u1
  have up2: "map_option b_status (findById (banners (snd (updateBanner ?z ?s (WellFormed 1)
               (empty_update\<lparr>ub_status := Some (JStr ''expired'')\<rparr>)))) 1)
             = Some (Some ''expired'')"
    by auto
  have up3: "updateBanner ?z ?s (WellFormed 1) (empty_update\<lparr>ub_status := Some (JStr ''live'')\<rparr>) =
       (reply 400 False ''Failed to update banner'', ?s)"
    using u1(4) same by (simp add: prod_eq_iff)
  from a b c c' d e f g cr1 cr2 created up1 up2 up3 show ?thesis
    by simp
qed

section \<open>Deleting a category\<close>

lemma deleteCategory_blocked:
  assumes "findById (categories s) i = Some cat"
    and "0 < countDocuments (categories s) (\<lambda>c. parent c = Some i)
         \<or> 0 < countDocuments (products s) (\<lambda>p. p_category p = Some i)"
  shows "code (fst (deleteCategory s (WellFormed i))) = 400"
    and "\<not> success (fst (deleteCategory s (WellFormed i)))"
    and "snd (deleteCategory s (WellFormed i)) = s"
  using assms by (auto simp: deleteCategory_def Let_def reply_def)

lemma deleteCategory_success:
  assumes "success (fst (deleteCategory s ident))"
  shows "\<exists>i cat. ident = WellFormed i \<and> findById (categories s) i = Some cat
           \<and> countDocuments (categories s) (\<lambda>c. parent c = Some i) = 0
           \<and> countDocuments (products s) (\<lambda>p. p_category p = Some i) = 0
           \<and> findById (categories (snd (deleteCategory s ident))) i = None"
  using assms
  by (auto simp: deleteCategory_def Let_def reply_def findById_def deleteDoc_def delete_conv'
      split: idparam.splits option.splits if_splits)

lemma deleteCategory_free:
  assumes "findById (categories s) i = Some cat"
    and "countDocuments (categories s) (\<lambda>c. parent c = Some i) = 0"
    and "countDocuments (products s) (\<lambda>p. p_category p = Some i) = 0"
  shows "fst (deleteCategory s (WellFormed i)) = reply 200 True ''Category deleted successfully''"
  using assms by (simp add: deleteCategory_def Let_def)


text \<open>
  Claim C7. Deleting a category that has a child category or a product answers 400 (the
  spec's ValidationError) and leaves the whole state, the category and the image file on
  disk with it, as it was. A deletion that succeeds was of an existing category with no
  child and no product, and a category with neither is deleted.
\<close>

theorem deleteCategory_guard:
  "(findById (categories s) i = Some cat
      \<and> (0 < countDocuments (categories s) (\<lambda>c. parent c = Some i)
         \<or> 0 < countDocuments (products s) (\<lambda>p. p_category p = Some i)) \<longrightarrow>
        code (fst (deleteCategory s (WellFormed i))) = 400
        \<and> \<not> success (fst (deleteCategory s (WellFormed i)))
        \<and> snd (deleteCategory s (WellFormed i)) = s)
   \<and> (success (fst (deleteCategory s ident)) \<longrightarrow>
        (\<exists>j c. ident = WellFormed j \<and> findById (categories s) j = Some c
           \<and> countDocuments (categories s) (\<lambda>c. parent c = Some j) = 0
           \<and> countDocuments (products s) (\<lambda>p. p_category p = Some j) = 0
           \<and> findById (categories (snd (deleteCategory s ident))) j = None))
   \<and> (findById (categories s) i = Some cat
      \<and> countDocuments (categories s) (\<lambda>c. parent c = Some i) = 0
      \<and> countDocuments (products s) (\<lambda>p. p_category p = Some i) = 0 \<longrightarrow>
        fst (deleteCategory s (WellFormed i)) = reply 200 True ''Category deleted successfully'')"
  using deleteCategory_blocked deleteCategory_success deleteCategory_free
  by blast

text \<open>
  In the catalogue, category 1 (with a child) and category 3 (with a product) cannot be
  deleted; category 4 can, and its image file goes with it.
\<close>

theorem deleteCategory_guard_witness:
  "deleteCategory catalogue (WellFormed 1) =
     (reply 400 False
        ''Cannot delete category with subcategories. Please delete or move subcategories first.'',
      catalogue)
   \<and> deleteCategory catalogue (WellFormed 3) =
     (\<lparr>code = 400, success = False, message = CategoryHasProductsMsg 1\<rparr>, catalogue)
   \<and> fst (deleteCategory catalogue (WellFormed 4)) =
       reply 200 True ''Category deleted successfully''
   \<and> findById (categories (snd (deleteCategory catalogue (WellFormed 4)))) 4 = None
   \<and> files (snd (deleteCategory catalogue (WellFormed 4))) = [''/uploads/categories/a.png'']"
proof -
  have f: "findById (categories catalogue) 1 =
             Some \<lparr>c_name = ''home'', parent = None, image = Some ''/uploads/categories/a.png'',
                   isActive = True, c_order = 0\<rparr>"
    "findById (categories catalogue) 3 =
       Some \<lparr>c_name = ''garden'', parent = None, image = None, isActive = True, c_order = 0\<rparr>"
    "findById (categories catalogue) 4 =
       Some \<lparr>c_name = ''toys'', parent = None, image = Some ''/uploads/categories/t.png'',
             isActive = True, c_order = 0\<rparr>"
    by (simp_all add: findById_def catalogue_def)
  have n: "countDocuments (categories catalogue) (\<lambda>c. parent c = Some 1) = 1"
    "countDocuments (products catalogue) (\<lambda>p. p_category p = Some 3) = 1"
    "countDocuments (categories catalogue) (\<lambda>c. parent c = Some 4) = 0"
    "countDocuments (products catalogue) (\<lambda>p. p_category p = Some 4) = 0"
    by (simp_all add: countDocuments_def catalogue_def)
  have e: "deleteCategory catalogue (WellFormed 1) =
     (reply 400 False
        ''Cannot delete category with subcategories. Please delete or move subcategories first.'',
      catalogue)"
    "deleteCategory catalogue (WellFormed 3) =
     (\<lparr>code = 400, success = False, message = CategoryHasProductsMsg 1\<rparr>, catalogue)"
    "files (snd (deleteCategory catalogue (WellFormed 4))) = [''/uploads/categories/a.png'']"
    by code_simp+
  from deleteCategory_guard [where s = catalogue and i = 1] f n
  have a: "snd (deleteCategory catalogue (WellFormed 1)) = catalogue"
    by simp
  from deleteCategory_guard [where s = catalogue and i = 3] f n
  have b: "snd (deleteCategory catalogue (WellFormed 3)) = catalogue"
    by simp
  from deleteCategory_guard [where s = catalogue and i = 4] f n
  have c: "fst (deleteCategory catalogue (WellFormed 4)) =
             reply 200 True ''Category deleted successfully''"
    by simp
  from deleteCategory_guard [where s = catalogue and ident = "WellFormed 4"] c
  have d: "findById (categories (snd (deleteCategory catalogue (WellFormed 4)))) 4 = None"
    by (auto simp: reply_def)
  from a b c d e show ?thesis by simp
qed

section \<open>Signup: the role of the created user\<close>

lemma if_shape: "Q x \<Longrightarrow> Q y \<Longrightarrow> Q (if c then x else y)"
  by simp

lemma User_create_role:
  assumes "User_create s pw u = Some (i, d, s')" "nu_role u = JStr t"
  shows "role d = Some t" "t = ''customer'' \<or> t = ''admin''" "users s' = users s @ [(i, d)]"
  using assms by (auto simp: User_create_def Let_def user_roles_def split: if_splits)

text \<open>
  When the role of the request is missing or a text, every signup is refused with status 400
  and no change, or creates one user, who is a customer: the comparison with \<^verbatim>\<open>'admin'\<close>
  replaces that text, and the schema refuses every other text but \<^verbatim>\<open>'customer'\<close>.
\<close>

lemma signup_text_role:
  assumes "sr_role rq = None \<or> (\<exists>t. sr_role rq = Some (JStr t))"
  shows "(\<exists>m. signup s rq = (reply 400 False m, s, None))
   \<or> (\<exists>i u s'. signup s rq = (reply 201 True ''User registered successfully'', s',
                   Some \<lparr>userId = i, userRole = role u, userEmail = email u, userName = u_name u\<rparr>)
        \<and> users s' = users s @ [(i, u)] \<and> role u = Some ''customer'')"
proof -
  define Q where "Q res \<longleftrightarrow>
     (\<exists>m. res = (reply 400 False m, s, None))
     \<or> (\<exists>i u s'. res = (reply 201 True ''User registered successfully'', s',
                   Some \<lparr>userId = i, userRole = role u, userEmail = email u, userName = u_name u\<rparr>)
        \<and> users s' = users s @ [(i, u)] \<and> role u = Some ''customer'')" for res
  let ?userRole = "case sr_role rq of None \<Rightarrow> JStr ''customer''
                   | Some r \<Rightarrow> if r = JStr ''admin'' then JStr ''customer''
                              else if truthyJ r then r else JStr ''customer''"
  have "\<exists>t. ?userRole = JStr t \<and> t \<noteq> ''admin''"
  proof (cases "sr_role rq")
    case None
    then show ?thesis by simp
  next
    case (Some v)
    with assms obtain x where "v = JStr x"
      by auto
    with Some show ?thesis
      by (cases "x = ''admin''") auto
  qed
  then obtain t where nr: "?userRole = JStr t" "t \<noteq> ''admin''"
    by blast
  have reject: "Q (reply 400 False m, s, None)" for m
    unfolding Q_def by blast
  have create: "Q (case User_create s pw u of
                     None \<Rightarrow> (reply 400 False ''Failed to register user'', s, None)
                   | Some (i, u, s') \<Rightarrow>
                       (reply 201 True ''User registered successfully'', s',
                        Some \<lparr>userId = i, userRole = role u, userEmail = email u,
                              userName = u_name u\<rparr>))"
    if "nu_role u = ?userRole" for u pw
  proof (cases "User_create s pw u")
    case None
    then show ?thesis by (simp add: reject)
  next
    case (Some r)
    obtain i d s' where r: "r = (i, d, s')" by (cases r)
    from that nr have "nu_role u = JStr t"
      by simp
    from User_create_role [of s pw u i d s' t] Some r this nr(2)
    have "role d = Some ''customer''" "users s' = users s @ [(i, d)]"
      by auto
    with Some r show ?thesis
      by (auto simp: Q_def)
  qed
  have tail: "Q (let userRole = ?userRole
                 in case sr_email rq of
                      None \<Rightarrow> (reply 400 False ''Failed to register user'', s, None)
                    | Some em \<Rightarrow>
                        (case User_create s (sr_password rq)
                                \<lparr>nu_name = trim (sr_name rq),
                                 nu_email = trim (toLowerCase em),
                                 nu_role = userRole,
                                 nu_phone = (if present (sr_phone rq)
                                             then map_option trim (sr_phone rq) else None)\<rparr> of
                           None \<Rightarrow> (reply 400 False ''Failed to register user'', s, None)
                         | Some (i, u, s') \<Rightarrow>
                             (reply 201 True ''User registered successfully'', s',
                              Some \<lparr>userId = i, userRole = role u, userEmail = email u,
                                    userName = u_name u\<rparr>)))"
  proof (cases "sr_email rq")
    case None
    then show ?thesis by (simp add: reject)
  next
    case (Some em)
    then show ?thesis
      unfolding Let_def by (simp only: option.case) (rule create, simp)
  qed
  have "Q (signup s rq)"
    unfolding signup_def by (intro if_shape [of Q] reject tail)
  then show ?thesis
    by (simp add: Q_def)
qed

text \<open>
  Claim C9 fails of the code. The controller replaces the role only when it is the text
  \<^verbatim>\<open>'admin'\<close>, and passes every other value on to \<^verbatim>\<open>User.create\<close>; the cast of the
  role's path turns an object with the text \<^verbatim>\<open>'admin'\<close> under \<^verbatim>\<open>_id\<close> into that text,
  which the schema accepts. A signup with the role \<^verbatim>\<open>{"_id": "admin"}\<close> creates a user with
  role \<open>admin\<close> and a session with that role, where a signup with the role \<^verbatim>\<open>"admin"\<close>
  creates a customer.
\<close>

theorem signup_object_role_creates_admin:
  "signup no_users
     (signup_as (Some ''dara@example.com'') None (Some (JObj [(''_id'', JStr ''admin'')]))) =
     (reply 201 True ''User registered successfully'',
      no_users\<lparr>users := [(1, \<lparr>u_name = ''Dara'', email = ''dara@example.com'',
                               role = Some ''admin'', phone = None\<rparr>)], nextId := 2\<rparr>,
      Some \<lparr>userId = 1, userRole = Some ''admin'', userEmail = ''dara@example.com'',
            userName = ''Dara''\<rparr>)
   \<and> signup no_users (signup_as (Some ''dara@example.com'') None (Some (JStr ''admin''))) =
     (reply 201 True ''User registered successfully'',
      no_users\<lparr>users := [(1, \<lparr>u_name = ''Dara'', email = ''dara@example.com'',
                               role = Some ''customer'', phone = None\<rparr>)], nextId := 2\<rparr>,
      Some \<lparr>userId = 1, userRole = Some ''customer'', userEmail = ''dara@example.com'',
            userName = ''Dara''\<rparr>)"
  by code_simp

section \<open>Signup with a phone number and no email\<close>

lemma User_create_no_email:
  assumes "nu_email u = []"
  shows "User_create s pw u = None"
  using assms by (simp add: User_create_def Let_def trim_def toLowerCase_def split: option.splits)

lemma signup_without_email_rejected:
  assumes "\<not> present (sr_email rq)"
  shows "\<exists>m. signup s rq = (reply 400 False m, s, None)"
proof -
  define Q where "Q res \<longleftrightarrow> (\<exists>m. res = (reply 400 False m, s, None))"
    for res :: "response \<times> store \<times> session option"
  have reject: "Q (reply 400 False m, s, None)" for m
    unfolding Q_def by blast
  have tail: "Q (let userRole = (case sr_role rq of None \<Rightarrow> JStr ''customer''
                                 | Some r \<Rightarrow> if r = JStr ''admin'' then JStr ''customer''
                                            else if truthyJ r then r else JStr ''customer'')
                 in case sr_email rq of
                      None \<Rightarrow> (reply 400 False ''Failed to register user'', s, None)
                    | Some em \<Rightarrow>
                        (case User_create s (sr_password rq)
                                \<lparr>nu_name = trim (sr_name rq),
                                 nu_email = trim (toLowerCase em),
                                 nu_role = userRole,
                                 nu_phone = (if present (sr_phone rq)
                                             then map_option trim (sr_phone rq) else None)\<rparr> of
                           None \<Rightarrow> (reply 400 False ''Failed to register user'', s, None)
                         | Some (i, u, s') \<Rightarrow>
                             (reply 201 True ''User registered successfully'', s',
                              Some \<lparr>userId = i, userRole = role u, userEmail = email u,
                                    userName = u_name u\<rparr>)))"
  proof (cases "sr_email rq")
    case None
    then show ?thesis by (simp add: reject)
  next
    case (Some em)
    with assms have "em = []"
      by (simp add: present_def)
    then have "trim (toLowerCase em) = []"
      by (simp add: trim_def toLowerCase_def)
    with Some show ?thesis
      by (simp add: User_create_no_email reject)
  qed
  have "Q (signup s rq)"
    unfolding signup_def by (intro if_shape [of Q] reject tail)
  then show ?thesis
    by (simp add: Q_def)
qed

lemma signup_phone_only_error_branch:
  assumes "\<not> present (sr_email rq)" "present (sr_phone rq)" "passes_signup_checks s rq"
  shows "signup s rq = (reply 400 False ''Failed to register user'', s, None)"
proof -
  from assms(2) obtain ph where ph: "sr_phone rq = Some ph" "ph \<noteq> []"
    by (auto simp: present_def split: option.splits)
  have create: "(case sr_email rq of
                      None \<Rightarrow> (reply 400 False ''Failed to register user'', s, None)
                    | Some em \<Rightarrow>
                        (case User_create s (sr_password rq)
                                \<lparr>nu_name = trim (sr_name rq),
                                 nu_email = trim (toLowerCase em),
                                 nu_role = r,
                                 nu_phone = p\<rparr> of
                           None \<Rightarrow> (reply 400 False ''Failed to register user'', s, None)
                         | Some (i, u, s') \<Rightarrow>
                             (reply 201 True ''User registered successfully'', s',
                              Some \<lparr>userId = i, userRole = role u, userEmail = email u,
                                    userName = u_name u\<rparr>)))
                = (reply 400 False ''Failed to register user'', s, None)" for r p
  proof (cases "sr_email rq")
    case None
    then show ?thesis by simp
  next
    case (Some em)
    with assms(1) have "em = []"
      by (simp add: present_def)
    then have "trim (toLowerCase em) = []"
      by (simp add: trim_def toLowerCase_def)
    with Some show ?thesis
      by (simp add: User_create_no_email)
  qed
  have g1: "\<not> (case sr_email rq of None \<Rightarrow> False | Some em \<Rightarrow> em \<noteq> [] \<and> \<not> isValidEmail em)"
    using assms(1) by (simp add: present_def split: option.splits)
  have g2: "\<not> (case sr_phone rq of None \<Rightarrow> False | Some ph \<Rightarrow> ph \<noteq> [] \<and> \<not> isValidPhone ph)"
    using assms(3) ph by (simp add: passes_signup_checks_def)
  have g3: "existingUser s None (map_option trim (sr_phone rq)) = None"
    using assms by (simp add: passes_signup_checks_def)
  have g4: "sr_name rq \<noteq> []" "sr_password rq \<noteq> []" "\<not> length (trim (sr_name rq)) < 2"
    "\<not> 100 < length (trim (sr_name rq))" "isValidPassword (sr_password rq)"
    using assms(3) by (simp_all add: passes_signup_checks_def)
  show ?thesis
    unfolding signup_def Let_def
    by (simp only: g1 g2 g3 g4 assms(1) assms(2) create if_False if_True simp_thms)
qed

text \<open>
  Claim C10. A signup request without an email (missing or empty), whether or not it has a
  phone number, never succeeds: the answer has status 400, no user is created and no session
  is set. When it has a phone number and passes every check before the creation of the user,
  the answer is that of the error branch, "Failed to register user".
\<close>

theorem signup_without_email_fails:
  assumes "\<not> present (sr_email rq)"
  shows "\<not> success (fst (signup s rq)) \<and> code (fst (signup s rq)) = 400
         \<and> snd (signup s rq) = (s, None)
         \<and> (present (sr_phone rq) \<and> passes_signup_checks s rq \<longrightarrow>
              signup s rq = (reply 400 False ''Failed to register user'', s, None))"
  using signup_without_email_rejected [OF assms, of s] signup_phone_only_error_branch [OF assms]
  by (auto simp: reply_def)

text \<open>
  A request with a valid phone number and no email passes the field validation and fails in
  the error branch, with no user created; so does one whose email is the empty string.
\<close>

theorem signup_without_email_fails_witness:
  "\<not> present (sr_email (signup_as None (Some ''012 345 6789'') None))
   \<and> present (sr_phone (signup_as None (Some ''012 345 6789'') None))
   \<and> passes_signup_checks no_users (signup_as None (Some ''012 345 6789'') None)
   \<and> signup no_users (signup_as None (Some ''012 345 6789'') None) =
       (reply 400 False ''Failed to register user'', no_users, None)
   \<and> signup no_users (signup_as (Some []) (Some ''012 345 6789'') None) =
       (reply 400 False ''Failed to register user'', no_users, None)"
proof -
  let ?a = "signup_as None (Some ''012 345 6789'') None"
  let ?b = "signup_as (Some []) (Some ''012 345 6789'') None"
  have e: "\<not> present (sr_email ?a)" "\<not> present (sr_email ?b)"
    by (simp_all add: present_def signup_as_def)
  have p: "present (sr_phone ?a)" "present (sr_phone ?b)"
    by (simp_all add: present_def signup_as_def)
  have c: "passes_signup_checks no_users ?a" "passes_signup_checks no_users ?b"
    by code_simp+
  from signup_without_email_fails [OF e(1), of no_users] p(1) c(1)
  have a: "signup no_users ?a = (reply 400 False ''Failed to register user'', no_users, None)"
    by simp
  from signup_without_email_fails [OF e(2), of no_users] p(2) c(2)
  have b: "signup no_users ?b = (reply 400 False ''Failed to register user'', no_users, None)"
    by simp
  from e p c a b show ?thesis by simp
qed


end
